theory Spec2Isabelle
  imports Main
begin

text \<open>
  A shallow embedding of the core of the IP country API: the result formatter, the
  provider client with its cache and its rate limit (\<^verbatim>\<open>src/services/api-client.js\<close> and
  its ipXapi subclass) and the orchestrator that fails over between clients
  (\<^verbatim>\<open>src/services/api-client-orchestrator.js\<close>). A method that mutates its object takes the
  object and returns it changed; a \<^verbatim>\<open>throw\<close> is a value; the clock and the upstream are
  parameters of each call.
\<close>

section \<open>JavaScript values\<close>

text \<open>
  The values the client handles: what \<^verbatim>\<open>response.json()\<close> resolves to, the payloads given
  to \<^verbatim>\<open>formatResult\<close> and the envelopes it returns. An object is the list of its own
  properties in insertion order. Numbers are integers (rate limits, counters, HTTP status
  codes, milliseconds); fractional numbers and NaN are outside the model.
\<close>

datatype jsval =
    Undefined
  | Null
  | Bool bool
  | Num int
  | Str string
  | Arr "jsval list"
  | Obj "(string \<times> jsval) list"

text \<open>ToBoolean: what \<^verbatim>\<open>if (v)\<close>, \<^verbatim>\<open>!v\<close> and \<^verbatim>\<open>v || w\<close> test.\<close>

fun truthy :: "jsval \<Rightarrow> bool" where
  "truthy Undefined = False"
| "truthy Null = False"
| "truthy (Bool b) = b"
| "truthy (Num n) = (n \<noteq> 0)"
| "truthy (Str s) = (s \<noteq> [])"
| "truthy (Arr xs) = True"
| "truthy (Obj fs) = True"

text \<open>\<^verbatim>\<open>a || b\<close>\<close>

definition jsOr :: "jsval \<Rightarrow> jsval \<Rightarrow> jsval" where
  "jsOr a b = (if truthy a then a else b)"

text \<open>Reading the own property \<open>k\<close> of an object: \<^verbatim>\<open>undefined\<close> when it has none.\<close>

definition field :: "(string \<times> jsval) list \<Rightarrow> string \<Rightarrow> jsval" where
  "field fs k = (case map_of fs k of None \<Rightarrow> Undefined | Some v \<Rightarrow> v)"

text \<open>
  \<^verbatim>\<open>v.k\<close> for the keys this program reads (error, info, type, status, message, success,
  country, country_name): \<open>None\<close> is the TypeError of reading a property of
  \<^verbatim>\<open>null\<close> or \<^verbatim>\<open>undefined\<close>; a primitive or an array has none of these properties.
\<close>

fun getProp :: "jsval \<Rightarrow> string \<Rightarrow> jsval option" where
  "getProp Undefined k = None"
| "getProp Null k = None"
| "getProp (Obj fs) k = Some (field fs k)"
| "getProp v k = Some Undefined"

text \<open>The same read where the value is known to be truthy, hence neither null nor undefined.\<close>

definition member :: "jsval \<Rightarrow> string \<Rightarrow> jsval" where
  "member v k = (case getProp v k of None \<Rightarrow> Undefined | Some w \<Rightarrow> w)"

text \<open>\<^verbatim>\<open>{...fs, k: v}\<close>: an existing key keeps its place, a new one is appended.\<close>

fun setField :: "(string \<times> jsval) list \<Rightarrow> string \<Rightarrow> jsval \<Rightarrow> (string \<times> jsval) list" where
  "setField [] k v = [(k, v)]"
| "setField ((k', v') # fs) k v = (if k' = k then (k, v) # fs else (k', v') # setField fs k v)"

section \<open>Numbers\<close>

text \<open>
  A JavaScript number is a double. The numbers of this program are integers, and the
  model holds the integer a double stands for. Up to \<open>2\<^sup>5\<^sup>3\<close> in absolute value every
  integer is a double; a sum beyond that is rounded to the nearest double, the even one
  on a tie. (Doubles end at \<open>2\<^sup>1\<^sup>0\<^sup>2\<^sup>4\<close>; no sum of a clock reading and a timeframe
  that is a double passes that.)
\<close>

fun bitLength :: "nat \<Rightarrow> nat" where
  "bitLength n = (if n = 0 then 0 else Suc (bitLength (n div 2)))"

definition roundMagnitude :: "nat \<Rightarrow> nat" where
  "roundMagnitude m =
     (if m < 2 ^ 53 then m
      else let e = bitLength m - 53;
               q = m div 2 ^ e;
               r = m mod 2 ^ e
           in (if 2 * r > 2 ^ e \<or> (2 * r = 2 ^ e \<and> odd q) then q + 1 else q) * 2 ^ e)"

definition roundDouble :: "int \<Rightarrow> int" where
  "roundDouble x =
     (if x < 0 then - int (roundMagnitude (nat (- x))) else int (roundMagnitude (nat x)))"

text \<open>\<^verbatim>\<open>a + b\<close> on numbers.\<close>

definition jsAdd :: "int \<Rightarrow> int \<Rightarrow> int" where
  "jsAdd a b = roundDouble (a + b)"

text \<open>
  Number to string, as a template string or ToString gives it: the shortest digits \<open>s\<close>
  (\<open>k\<close> of them) with \<open>s \<times> 10\<^bsup>n-k\<^esup>\<close> rounding to the double, the closest such \<open>s\<close>,
  the even one on a tie; zeros fill up to \<open>n\<close> digits while \<open>n \<le> 21\<close>, and an exponent
  is printed beyond. Below \<open>2\<^sup>5\<^sup>3\<close> these are the decimal digits of the integer.
\<close>

definition digit :: "nat \<Rightarrow> char" where
  "digit d = ''0123456789'' ! d"

fun showNat :: "nat \<Rightarrow> string" where
  "showNat n = (if n < 10 then [digit n] else showNat (n div 10) @ [digit (n mod 10)])"

definition shortestAt :: "nat \<Rightarrow> nat \<Rightarrow> nat \<Rightarrow> nat option" where
  "shortestAt d n k =
     (let p = 10 ^ (n - k);
          lo = d div p;
          hi = lo + 1;
          okLo = (roundMagnitude (lo * p) = d);
          okHi = (hi < 10 ^ k \<and> roundMagnitude (hi * p) = d)
      in if okLo \<and> okHi then
           (if d - lo * p < hi * p - d then Some lo
            else if hi * p - d < d - lo * p then Some hi
            else if even lo then Some lo else Some hi)
         else if okLo then Some lo
         else if okHi then Some hi
         else None)"

definition shortestDigits :: "nat \<Rightarrow> nat \<times> nat" where
  "shortestDigits d =
     (let n = length (showNat d)
      in if roundMagnitude (10 ^ n) = d then (1, n + 1)
         else (case List.find (\<lambda>k. shortestAt d n k \<noteq> None) [1..<Suc n] of
                 None \<Rightarrow> (d, n)
               | Some k \<Rightarrow> (case shortestAt d n k of None \<Rightarrow> (d, n) | Some s \<Rightarrow> (s, n))))"

definition showMagnitude :: "nat \<Rightarrow> string" where
  "showMagnitude m =
     (if m < 2 ^ 53 then showNat m
      else let (s, n) = shortestDigits (roundMagnitude m);
               ds = showNat s;
               k = length ds
           in if n \<le> 21 then ds @ replicate (n - k) (CHR ''0'')
              else if k = 1 then ds @ ''e+'' @ showNat (n - 1)
              else hd ds # CHR ''.'' # tl ds @ ''e+'' @ showNat (n - 1))"

definition numberToString :: "int \<Rightarrow> string" where
  "numberToString x =
     (if x < 0 then CHR ''-'' # showMagnitude (nat (- x)) else showMagnitude (nat x))"

section \<open>ToString\<close>

fun joinWith :: "string \<Rightarrow> string list \<Rightarrow> string" where
  "joinWith sep [] = []"
| "joinWith sep [x] = x"
| "joinWith sep (x # y # ys) = x @ sep @ joinWith sep (y # ys)"

text \<open>
  ToString, which the \<^verbatim>\<open>Error\<close> constructor applies to its message; \<open>None\<close> is the
  TypeError it throws. An array is joined with commas, with nothing for a null or
  undefined element. A parsed object has \<^verbatim>\<open>Object.prototype\<close> as its prototype: it
  prints \<^verbatim>\<open>[object Object]\<close>, unless it has an own property \<^verbatim>\<open>toString\<close>, which hides
  the inherited method and, coming from JSON, is not callable; then neither it nor
  \<^verbatim>\<open>valueOf\<close> gives a primitive and the conversion throws.
\<close>

fun toStringJs :: "jsval \<Rightarrow> string option" where
  "toStringJs Undefined = Some ''undefined''"
| "toStringJs Null = Some ''null''"
| "toStringJs (Bool b) = Some (if b then ''true'' else ''false'')"
| "toStringJs (Num n) = Some (numberToString n)"
| "toStringJs (Str s) = Some s"
| "toStringJs (Arr xs) =
     map_option (joinWith '','')
       (those (map (\<lambda>x. if x = Undefined \<or> x = Null then Some [] else toStringJs x) xs))"
| "toStringJs (Obj fs) =
     (if map_of fs ''toString'' \<noteq> None then None else Some ''[object Object]'')"

section \<open>Errors\<close>

text \<open>
  A thrown \<^verbatim>\<open>Error\<close> object: its message and its \<^verbatim>\<open>status\<close> property, \<open>None\<close> when it
  has none (a TypeError, or what a rejected \<^verbatim>\<open>fetch\<close> or \<^verbatim>\<open>json()\<close> carries).
\<close>

datatype jsError = JsError (message: string) (status: "int option")

text \<open>
  \<^verbatim>\<open>new ApiError(message, { status })\<close>: \<^verbatim>\<open>super(message)\<close>, then
  \<^verbatim>\<open>this.status = info && info.status || 400\<close>. Every call in the program passes an
  \<open>info\<close> object with a numeric status. The \<^verbatim>\<open>Error\<close> constructor turns the message into
  a string, the empty one for \<^verbatim>\<open>undefined\<close>. \<open>Inr\<close> is the error constructed; \<open>Inl\<close> is
  the TypeError thrown instead when the message does not convert.
\<close>

definition ApiError :: "jsval \<Rightarrow> int \<Rightarrow> jsError + jsError" where
  "ApiError msg st =
     (if msg = Undefined then Inr (JsError [] (Some (if st \<noteq> 0 then st else 400)))
      else case toStringJs msg of
             None \<Rightarrow> Inl (JsError ''Cannot convert object to primitive value'' None)
           | Some m \<Rightarrow> Inr (JsError m (Some (if st \<noteq> 0 then st else 400))))"

text \<open>\<^verbatim>\<open>throw new ApiError(...)\<close>: the error that is thrown, whichever it is.\<close>

definition throwNew :: "jsError + jsError \<Rightarrow> jsError" where
  "throwNew r = (case r of Inl e \<Rightarrow> e | Inr e \<Rightarrow> e)"

text \<open>The error object as \<^verbatim>\<open>formatResult\<close> reads it.\<close>

definition errorValue :: "jsError \<Rightarrow> jsval" where
  "errorValue e =
     Obj ((''message'', Str (message e)) #
          (case status e of None \<Rightarrow> [] | Some s \<Rightarrow> [(''status'', Num s)]))"

section \<open>formatResult\<close>

definition formatResult :: "(string \<times> jsval) list \<Rightarrow> jsval" where
  "formatResult payload =
     (let apiUrl = field payload ''apiUrl'';
          cache = (if field payload ''cache'' = Undefined then Bool False
                   else field payload ''cache'');
          rateLimit = field payload ''rateLimit'';
          rateLimitCount = field payload ''rateLimitCount'';
          result = filter (\<lambda>(k, v). k \<notin> set [''apiUrl'', ''cache'', ''rateLimit'',
                                               ''rateLimitCount'']) payload
      in if truthy (field result ''error'') then
           (let status = jsOr (member (field result ''error'') ''status'') (Num 400)
            in Obj [(''error'', Obj [(''message'', member (field result ''error'') ''message'')]),
                    (''meta'', Obj [(''apiUrl'', apiUrl),
                                    (''rateLimit'', rateLimit),
                                    (''rateLimitCount'', rateLimitCount),
                                    (''status'', status)])])
         else
           Obj [(''data'', Obj result),
                (''meta'', Obj [(''apiUrl'', apiUrl),
                                (''cache'', cache),
                                (''rateLimit'', rateLimit),
                                (''rateLimitCount'', rateLimitCount),
                                (''status'', Num 200)])])"

section \<open>The provider client\<close>

text \<open>
  \<^verbatim>\<open>ApiClient\<close> is the ipstack client, \<^verbatim>\<open>ApiClientIpxapi\<close> extends it and overrides
  \<^verbatim>\<open>getCountryApiUrl\<close>, \<^verbatim>\<open>getCountryNameFromResult\<close> and \<^verbatim>\<open>validateResult\<close>; the
  class of an instance is its \<open>provider\<close>. The \<^verbatim>\<open>Map\<close> of the cache is a partial map
  (the order of its entries is never read). \<open>rateLimitExpiry\<close> is \<open>None\<close> while the
  field is \<^verbatim>\<open>undefined\<close>.
\<close>

datatype provider = Ipstack | Ipxapi

record client =
  provider :: provider
  baseUrl :: string
  cache :: "string \<rightharpoonup> jsval"
  headers :: jsval
  rateLimit :: int
  rateLimitCount :: int
  rateLimitExpiry :: "int option"
  rateLimitTimeframe :: int
  token :: string

definition DEFAULT_RATE_LIMIT_TIMEFRAME :: int where
  "DEFAULT_RATE_LIMIT_TIMEFRAME = 3600000"

text \<open>
  The constructors. The three \<^verbatim>\<open>typeof\<close> checks hold by the types of the arguments;
  \<open>rateLimitTimeframe\<close> is optional, and \<^verbatim>\<open>if (rateLimitTimeframe)\<close> keeps the default
  for 0 as well.
\<close>

definition newApiClient :: "string \<Rightarrow> int \<Rightarrow> int option \<Rightarrow> string \<Rightarrow> client" where
  "newApiClient url limit timeframe tok =
     \<lparr> provider = Ipstack,
       baseUrl = url,
       cache = Map.empty,
       headers = Undefined,
       rateLimit = limit,
       rateLimitCount = 0,
       rateLimitExpiry = None,
       rateLimitTimeframe =
         (case timeframe of
            None \<Rightarrow> DEFAULT_RATE_LIMIT_TIMEFRAME
          | Some t \<Rightarrow> if t \<noteq> 0 then t else DEFAULT_RATE_LIMIT_TIMEFRAME),
       token = tok \<rparr>"

definition newApiClientIpxapi :: "string \<Rightarrow> int \<Rightarrow> int option \<Rightarrow> string \<Rightarrow> client" where
  "newApiClientIpxapi url limit timeframe tok =
     (newApiClient url limit timeframe tok)
       \<lparr> provider := Ipxapi,
         headers := Obj [(''accept'', Str ''application/json''),
                         (''authorization'', Str (''Bearer '' @ tok))] \<rparr>"

text \<open>
  \<^verbatim>\<open>Date.now()\<close> is a parameter: \<open>now\<close> is what one call of it returns.
  \<^verbatim>\<open>!this._rateLimitExpiry\<close> holds for \<^verbatim>\<open>undefined\<close> and for 0.
\<close>

definition isRateLimitExpired :: "int \<Rightarrow> client \<Rightarrow> bool" where
  "isRateLimitExpired now c =
     (case rateLimitExpiry c of None \<Rightarrow> True | Some e \<Rightarrow> e = 0 \<or> now > e)"

definition isRateLimited :: "int \<Rightarrow> client \<Rightarrow> bool" where
  "isRateLimited now c =
     (if isRateLimitExpired now c then False else rateLimitCount c \<ge> rateLimit c)"

text \<open>The method \<^verbatim>\<open>formatResult(payload)\<close> of the class.\<close>

definition clientFormatResult :: "client \<Rightarrow> (string \<times> jsval) list \<Rightarrow> jsval" where
  "clientFormatResult c payload =
     formatResult
       (setField (setField payload ''rateLimit'' (Num (rateLimit c)))
          ''rateLimitCount'' (Num (rateLimitCount c)))"

text \<open>
  \<^verbatim>\<open>handleRateLimiting\<close> calls \<^verbatim>\<open>Date.now()\<close> up to three times: in the test for a reset
  (\<open>testAt\<close>), for the new expiry when it resets (\<open>resetAt\<close>), and inside the getter
  \<^verbatim>\<open>isRateLimited\<close> (\<open>gateAt\<close>). The three readings are given to the call; nothing ties
  them to one another.
\<close>

record clock =
  testAt :: int
  resetAt :: int
  gateAt :: int

text \<open>A clock that does not tick during the call.\<close>

definition steady :: "int \<Rightarrow> clock" where
  "steady now = \<lparr> testAt = now, resetAt = now, gateAt = now \<rparr>"

text \<open>
  \<^verbatim>\<open>handleRateLimiting\<close> mutates the client and may throw: the result is the error thrown,
  if any, and the client as the method leaves it (a reset done before the throw stays).
  \<^verbatim>\<open>this._rateLimitCount++\<close> is the exact successor: the counter grows from 0 by ones
  and would have to pass \<open>2\<^sup>5\<^sup>3\<close> calls before the sum rounds.
\<close>

definition handleRateLimiting :: "clock \<Rightarrow> client \<Rightarrow> jsError option \<times> client" where
  "handleRateLimiting t c =
     (let c1 = (if isRateLimitExpired (testAt t) c
                then c\<lparr> rateLimitExpiry := Some (jsAdd (resetAt t) (rateLimitTimeframe c)),
                        rateLimitCount := 0 \<rparr>
                else c)
      in if isRateLimited (gateAt t) c1
         then (Some (throwNew (ApiError (Str ''Rate limited'') 429)), c1)
         else (None, c1\<lparr> rateLimitCount := rateLimitCount c1 + 1 \<rparr>))"

definition getCountryApiUrl :: "client \<Rightarrow> string \<Rightarrow> string" where
  "getCountryApiUrl c ip =
     (case provider c of
        Ipstack \<Rightarrow> baseUrl c @ ''/'' @ ip @ ''?access_key='' @ token c
      | Ipxapi \<Rightarrow> baseUrl c @ ''/ip?ip='' @ ip)"

definition transferCache :: "client \<Rightarrow> client \<Rightarrow> client" where
  "transferCache this apiClient = this\<lparr> cache := cache this ++ cache apiClient \<rparr>"

section \<open>The upstream\<close>

text \<open>
  What the HTTP transport does when asked: \<^verbatim>\<open>fetch\<close> rejects (a network failure) or
  resolves to a response \<^verbatim>\<open>{ ok, status, statusText, json() }\<close> (its \<^verbatim>\<open>status\<close> is the
  field \<open>httpStatus\<close>), whose \<^verbatim>\<open>json()\<close> in turn rejects (a body that is not JSON) or
  resolves to the parsed value. A rejection carries
  an \<^verbatim>\<open>Error\<close> object of the platform, which has a message and no \<^verbatim>\<open>status\<close>.
\<close>

datatype jsonOutcome = JsonRejects string | JsonResolves jsval

record response =
  ok :: bool
  httpStatus :: int
  statusText :: string
  json :: jsonOutcome

datatype fetchOutcome = FetchRejects string | FetchResolves response

text \<open>The TypeError of \<^verbatim>\<open>v.k\<close> for a null or undefined \<open>v\<close>.\<close>

definition typeError :: "jsval \<Rightarrow> string \<Rightarrow> jsError" where
  "typeError v k =
     JsError (''Cannot read properties of '' @ (if v = Null then ''null'' else ''undefined'')
              @ '' (reading '' @ [CHR 0x27] @ k @ [CHR 0x27] @ '')'') None"

text \<open>The validations return the error they throw, \<open>None\<close> when they return normally.\<close>

definition validateResponse :: "response \<Rightarrow> jsError option" where
  "validateResponse response =
     (if \<not> ok response
      then Some (throwNew
                   (ApiError (Str (numberToString (httpStatus response) @ '' ''
                                   @ statusText response))
                      (httpStatus response)))
      else None)"

definition validateResult :: "provider \<Rightarrow> jsval \<Rightarrow> jsError option" where
  "validateResult p result =
     (case p of
        Ipstack \<Rightarrow>
          (case getProp result ''error'' of
             None \<Rightarrow> Some (typeError result ''error'')
           | Some err \<Rightarrow>
               if truthy err
               then Some (throwNew
                            (ApiError
                               (jsOr (jsOr (member err ''info'') (member err ''type''))
                                  (Str ''An unknown error occurred''))
                               (if member err ''type'' \<noteq> Str ''invalid_access_key''
                                then 400 else 401)))
               else None)
      | Ipxapi \<Rightarrow>
          (case getProp result ''success'' of
             None \<Rightarrow> Some (typeError result ''success'')
           | Some success \<Rightarrow>
               if success = Bool False
               then Some (throwNew
                            (ApiError
                               (jsOr (member result ''message'')
                                  (Str ''An unknown error occurred''))
                               400))
               else None))"

definition getCountryNameFromResult :: "provider \<Rightarrow> jsval \<Rightarrow> jsError + jsval" where
  "getCountryNameFromResult p result =
     (let k = (case p of Ipstack \<Rightarrow> ''country_name'' | Ipxapi \<Rightarrow> ''country'')
      in case getProp result k of None \<Rightarrow> Inl (typeError result k) | Some v \<Rightarrow> Inr v)"

text \<open>
  The \<^verbatim>\<open>try\<close> body of \<^verbatim>\<open>getCountry\<close> from the awaited \<^verbatim>\<open>fetch\<close> to the extracted name:
  \<open>Inl\<close> is the error thrown (or the rejection awaited), \<open>Inr\<close> the country name.
\<close>

definition fetchCountryName :: "provider \<Rightarrow> fetchOutcome \<Rightarrow> jsError + jsval" where
  "fetchCountryName p upstream =
     (case upstream of
        FetchRejects m \<Rightarrow> Inl (JsError m None)
      | FetchResolves response \<Rightarrow>
          (case validateResponse response of
             Some e \<Rightarrow> Inl e
           | None \<Rightarrow>
               (case json response of
                  JsonRejects m \<Rightarrow> Inl (JsError m None)
                | JsonResolves result \<Rightarrow>
                    (case validateResult p result of
                       Some e \<Rightarrow> Inl e
                     | None \<Rightarrow>
                         (case getCountryNameFromResult p result of
                            Inl e \<Rightarrow> Inl e
                          | Inr name \<Rightarrow>
                              if \<not> truthy name
                              then Inl (throwNew
                                          (ApiError (Str ''Country not found for this IP'') 400))
                              else Inr name)))))"

text \<open>
  What one call of \<^verbatim>\<open>getCountry\<close> leaves behind: the envelope it resolves to, the client
  after the call, the request sent upstream (URL and headers) if one was sent, and the
  error given to \<^verbatim>\<open>console.error\<close> if one was.
\<close>

record outcome =
  envelope :: jsval
  state :: client
  fetched :: "(string \<times> jsval) option"
  logged :: "jsError option"

text \<open>\<^verbatim>\<open>this._cache.get(ip)\<close>\<close>

definition cacheGet :: "client \<Rightarrow> string \<Rightarrow> jsval" where
  "cacheGet c ip = (case cache c ip of None \<Rightarrow> Undefined | Some v \<Rightarrow> v)"

text \<open>
  The \<^verbatim>\<open>try\<close> block of \<^verbatim>\<open>getCountry\<close>. \<open>Inr\<close> is a normal return. \<open>Inl\<close> is a throw: the
  error, the client as the throw leaves it, and the request sent before it, if any.
\<close>

definition tryGetCountry ::
  "string \<Rightarrow> clock \<Rightarrow> fetchOutcome \<Rightarrow> string \<Rightarrow> client
     \<Rightarrow> (jsError \<times> client \<times> (string \<times> jsval) option) + outcome" where
  "tryGetCountry apiUrl t upstream ip c =
     (let cachedCountryName = cacheGet c ip
      in if truthy cachedCountryName then
           Inr \<lparr> envelope = clientFormatResult c [(''cache'', Bool True),
                                                   (''name'', cachedCountryName)],
                 state = c, fetched = None, logged = None \<rparr>
         else
           (case handleRateLimiting t c of
              (Some error, c1) \<Rightarrow> Inl (error, c1, None)
            | (None, c1) \<Rightarrow>
                (case fetchCountryName (provider c1) upstream of
                   Inl error \<Rightarrow> Inl (error, c1, Some (apiUrl, headers c1))
                 | Inr name \<Rightarrow>
                     (let c2 = c1\<lparr> cache := (cache c1)(ip \<mapsto> name) \<rparr>
                      in Inr \<lparr> envelope = clientFormatResult c2 [(''apiUrl'', Str apiUrl),
                                                                (''name'', name)],
                               state = c2,
                               fetched = Some (apiUrl, headers c1),
                               logged = None \<rparr>))))"

text \<open>
  \<^verbatim>\<open>getCountry\<close>: the \<^verbatim>\<open>catch\<close> block logs when \<^verbatim>\<open>!error.status || error.status >= 500\<close>
  and formats the error.
\<close>

definition getCountry :: "clock \<Rightarrow> fetchOutcome \<Rightarrow> string \<Rightarrow> client \<Rightarrow> outcome" where
  "getCountry t upstream ip c =
     (let apiUrl = getCountryApiUrl c ip
      in case tryGetCountry apiUrl t upstream ip c of
           Inr r \<Rightarrow> r
         | Inl (error, c1, req) \<Rightarrow>
             \<lparr> envelope = clientFormatResult c1 [(''apiUrl'', Str apiUrl),
                                                  (''error'', errorValue error)],
               state = c1,
               fetched = req,
               logged = (case status error of
                           None \<Rightarrow> Some error
                         | Some s \<Rightarrow> if s = 0 \<or> s \<ge> 500 then Some error else None) \<rparr>)"

text \<open>A sequence of calls on one client, each with its clock readings, upstream and IP.\<close>

fun getCountries :: "client \<Rightarrow> (clock \<times> fetchOutcome \<times> string) list \<Rightarrow> outcome list" where
  "getCountries c [] = []"
| "getCountries c ((t, upstream, ip) # calls) =
     (let r = getCountry t upstream ip c in r # getCountries (state r) calls)"

text \<open>The two shapes of an envelope: \<^verbatim>\<open>{ error, meta }\<close> and \<^verbatim>\<open>{ data, meta }\<close>.\<close>

fun isErrorEnvelope :: "jsval \<Rightarrow> bool" where
  "isErrorEnvelope (Obj fs) = (map fst fs = [''error'', ''meta''])"
| "isErrorEnvelope v = False"

fun isSuccessEnvelope :: "jsval \<Rightarrow> bool" where
  "isSuccessEnvelope (Obj fs) = (map fst fs = [''data'', ''meta''])"
| "isSuccessEnvelope v = False"

text \<open>
  The clients the program can hold: built by a constructor, then changed only by their
  own \<^verbatim>\<open>getCountry\<close> and by \<^verbatim>\<open>transferCache\<close> from another such client.
\<close>

inductive reachable :: "client \<Rightarrow> bool" where
  constructed: "reachable (newApiClient url limit timeframe tok)"
| constructedIpxapi: "reachable (newApiClientIpxapi url limit timeframe tok)"
| called: "reachable c \<Longrightarrow> reachable (state (getCountry t upstream ip c))"
| transferred: "reachable c \<Longrightarrow> reachable d \<Longrightarrow> reachable (transferCache c d)"

section \<open>The orchestrator\<close>

text \<open>
  The clients of the list are distinct objects; a reference to one of them is its index.
  \<open>activeApiClient\<close> is \<open>None\<close> when \<^verbatim>\<open>apiClients[0]\<close> was \<^verbatim>\<open>undefined\<close>.
\<close>

record orchestrator =
  activeApiClient :: "nat option"
  apiClients :: "client list"


text \<open>\<^verbatim>\<open>Array.prototype.find\<close>, returning the position of the element found.\<close>

fun findFrom :: "('a \<Rightarrow> bool) \<Rightarrow> nat \<Rightarrow> 'a list \<Rightarrow> nat option" where
  "findFrom P i [] = None"
| "findFrom P i (x # xs) = (if P x then Some i else findFrom P (Suc i) xs)"

text \<open>
  The getter \<^verbatim>\<open>apiClient\<close>: the client returned (its index) and the orchestrator after the
  access; \<open>None\<close> is the TypeError of reading \<^verbatim>\<open>isRateLimited\<close> of \<^verbatim>\<open>undefined\<close>.
\<close>

definition apiClient :: "int \<Rightarrow> orchestrator \<Rightarrow> (nat \<times> orchestrator) option" where
  "apiClient now orc =
     (case activeApiClient orc of
        None \<Rightarrow> None
      | Some a \<Rightarrow>
          if \<not> a < length (apiClients orc) then None
          else if \<not> isRateLimited now (apiClients orc ! a) then Some (a, orc)
          else
            (case findFrom (\<lambda>apiClient. \<not> isRateLimited now apiClient) 0 (apiClients orc) of
               None \<Rightarrow> Some (a, orc)
             | Some q \<Rightarrow>
                 Some (q, orc\<lparr> apiClients :=
                                 (apiClients orc)
                                   [q := transferCache (apiClients orc ! q) (apiClients orc ! a)],
                               activeApiClient := Some q \<rparr>)))"

section \<open>The window as the specification words it\<close>

text \<open>
  The specification calls the window expired when it never started or when the current
  time is strictly after \<open>rateLimitExpiry\<close>.
\<close>

definition windowExpired :: "int \<Rightarrow> client \<Rightarrow> bool" where
  "windowExpired now c = (case rateLimitExpiry c of None \<Rightarrow> True | Some e \<Rightarrow> e < now)"

section \<open>The fixtures of the unit tests\<close>

text \<open>The mocked \<^verbatim>\<open>fetch\<close> of the tests and the clients they build.\<close>

definition okResponse :: "jsval \<Rightarrow> fetchOutcome" where
  "okResponse body =
     FetchResolves \<lparr> ok = True, httpStatus = 200, statusText = ''OK'', json = JsonResolves body \<rparr>"

definition failedResponse :: "int \<Rightarrow> string \<Rightarrow> fetchOutcome" where
  "failedResponse st txt =
     FetchResolves \<lparr> ok = False, httpStatus = st, statusText = txt,
                     json = JsonRejects ''Unexpected end of JSON input'' \<rparr>"

definition ipstackClient :: client where
  "ipstackClient = newApiClient ''http://api.ipstack.com'' 5 (Some 60000) ''abc123''"

definition ipxapiClient :: client where
  "ipxapiClient = newApiClientIpxapi ''https://ipxapi.com/api'' 5 None ''def456''"

definition somewhere :: fetchOutcome where
  "somewhere = okResponse (Obj [(''country_name'', Str ''Somewhere'')])"

definition sixCalls :: "(clock \<times> fetchOutcome \<times> string) list" where
  "sixCalls =
     [(steady 1000, somewhere, ''1.1.1.1''), (steady 1001, somewhere, ''2.2.2.2''),
      (steady 1002, somewhere, ''3.3.3.3''), (steady 1003, somewhere, ''4.4.4.4''),
      (steady 1004, somewhere, ''5.5.5.5''), (steady 1005, somewhere, ''111.22.333.44'')]"

section \<open>Properties of formatResult\<close>

lemma field_rest:
  "k \<notin> set ks \<Longrightarrow> field (filter (\<lambda>(k', v). k' \<notin> set ks) fs) k = field fs k"
  by (induction fs) (auto simp: field_def)

text \<open>
  Claim C10. \<^verbatim>\<open>formatResult\<close> is a function of its payload alone. For an error-shaped payload
  (a truthy \<^verbatim>\<open>error\<close>) the envelope is \<^verbatim>\<open>{ error, meta }\<close>, where \<^verbatim>\<open>error\<close> holds the
  message and nothing else, \<^verbatim>\<open>meta\<close> holds apiUrl, rateLimit, rateLimitCount and status and
  no cache field, and the status is the one the error carries (\<^verbatim>\<open>error.status || 400\<close>: 400
  when it carries none). For a success-shaped payload the envelope is \<^verbatim>\<open>{ data, meta }\<close>
  with status 200 and with every field of the payload other than apiUrl, cache, rateLimit
  and rateLimitCount under \<^verbatim>\<open>data\<close>.
\<close>

theorem formatResult_shape:
  "(truthy (field payload ''error'') \<longrightarrow>
      formatResult payload =
        Obj [(''error'', Obj [(''message'', member (field payload ''error'') ''message'')]),
             (''meta'', Obj [(''apiUrl'', field payload ''apiUrl''),
                             (''rateLimit'', field payload ''rateLimit''),
                             (''rateLimitCount'', field payload ''rateLimitCount''),
                             (''status'',
                                if truthy (member (field payload ''error'') ''status'')
                                then member (field payload ''error'') ''status''
                                else Num 400)])])
   \<and> (\<not> truthy (field payload ''error'') \<longrightarrow>
      formatResult payload =
        Obj [(''data'', Obj (filter (\<lambda>(k, v). k \<notin> {''apiUrl'', ''cache'', ''rateLimit'',
                                                    ''rateLimitCount''}) payload)),
             (''meta'', Obj [(''apiUrl'', field payload ''apiUrl''),
                             (''cache'', if field payload ''cache'' = Undefined then Bool False
                                         else field payload ''cache''),
                             (''rateLimit'', field payload ''rateLimit''),
                             (''rateLimitCount'', field payload ''rateLimitCount''),
                             (''status'', Num 200)])])"
proof -
  have e: "field (filter (\<lambda>(k, v). k \<notin> set [''apiUrl'', ''cache'', ''rateLimit'',
               ''rateLimitCount'']) payload) ''error'' = field payload ''error''"
    by (rule field_rest) simp
  show ?thesis
    unfolding formatResult_def Let_def e by (simp add: jsOr_def)
qed

theorem formatResult_shape_witness:
  "truthy (field [(''apiUrl'', Str ''https://www.foo.software''),
                  (''error'', Obj [(''message'', Str ''Unauthorized''), (''status'', Num 401)])]
             ''error'')
   \<and> formatResult [(''apiUrl'', Str ''https://www.foo.software''),
                  (''error'', Obj [(''message'', Str ''Unauthorized''), (''status'', Num 401)])] =
       Obj [(''error'', Obj [(''message'', Str ''Unauthorized'')]),
            (''meta'', Obj [(''apiUrl'', Str ''https://www.foo.software''),
                            (''rateLimit'', Undefined),
                            (''rateLimitCount'', Undefined),
                            (''status'', Num 401)])]
   \<and> \<not> truthy (field [(''cache'', Bool True), (''country'', Str ''United States''),
                      (''rateLimit'', Num 5), (''rateLimitCount'', Num 1)] ''error'')
   \<and> formatResult [(''cache'', Bool True), (''country'', Str ''United States''),
                      (''rateLimit'', Num 5), (''rateLimitCount'', Num 1)] =
       Obj [(''data'', Obj [(''country'', Str ''United States'')]),
            (''meta'', Obj [(''apiUrl'', Undefined),
                            (''cache'', Bool True),
                            (''rateLimit'', Num 5),
                            (''rateLimitCount'', Num 1),
                            (''status'', Num 200)])]"
  using formatResult_shape
          [of "[(''apiUrl'', Str ''https://www.foo.software''),
                (''error'', Obj [(''message'', Str ''Unauthorized''), (''status'', Num 401)])]"]
        formatResult_shape
          [of "[(''cache'', Bool True), (''country'', Str ''United States''),
                (''rateLimit'', Num 5), (''rateLimitCount'', Num 1)]"]
  by (simp add: field_def member_def)

section \<open>Properties of transferCache\<close>

text \<open>
  Claim C1, as stated, fails: when receiver and source both hold an entry for an IP, the
  receiver ends with the value of the source, not with its own. Here the receiver holds
  X and the source holds Y for 1.2.3.4, and the receiver holds Y after the transfer.
\<close>

theorem transferCache_receiver_overridden:
  "cache ((newApiClient ''http://api.ipstack.com'' 5 None ''abc123'')
            \<lparr> cache := [''1.2.3.4'' \<mapsto> Str ''X''] \<rparr>) ''1.2.3.4''
     = Some (Str ''X'')
   \<and> cache ((newApiClientIpxapi ''https://ipxapi.com/api'' 5 None ''def456'')
            \<lparr> cache := [''1.2.3.4'' \<mapsto> Str ''Y''] \<rparr>) ''1.2.3.4''
     = Some (Str ''Y'')
   \<and> cache (transferCache
            ((newApiClient ''http://api.ipstack.com'' 5 None ''abc123'')
               \<lparr> cache := [''1.2.3.4'' \<mapsto> Str ''X''] \<rparr>)
            ((newApiClientIpxapi ''https://ipxapi.com/api'' 5 None ''def456'')
               \<lparr> cache := [''1.2.3.4'' \<mapsto> Str ''Y''] \<rparr>)) ''1.2.3.4''
     = Some (Str ''Y'')
   \<and> cache (transferCache
            ((newApiClient ''http://api.ipstack.com'' 5 None ''abc123'')
               \<lparr> cache := [''1.2.3.4'' \<mapsto> Str ''X''] \<rparr>)
            ((newApiClientIpxapi ''https://ipxapi.com/api'' 5 None ''def456'')
               \<lparr> cache := [''1.2.3.4'' \<mapsto> Str ''Y''] \<rparr>)) ''1.2.3.4''
     \<noteq> cache ((newApiClient ''http://api.ipstack.com'' 5 None ''abc123'')
                 \<lparr> cache := [''1.2.3.4'' \<mapsto> Str ''X''] \<rparr>) ''1.2.3.4''"
  by (simp add: transferCache_def)

text \<open>
  Claim C1, amended. After \<^verbatim>\<open>A.transferCache(B)\<close> the keys of the cache of A are the keys
  A had and the keys of B, and every IP maps to the value B holds for it, or to the one A
  held when B has none: on a collision the entry of the source B wins.
\<close>

theorem transferCache_merge:
  "dom (cache (transferCache A B)) = dom (cache A) \<union> dom (cache B)
   \<and> cache (transferCache A B) ip =
       (case cache B ip of None \<Rightarrow> cache A ip | Some v \<Rightarrow> Some v)"
proof
  show "dom (cache (transferCache A B)) = dom (cache A) \<union> dom (cache B)"
    by (simp add: transferCache_def Un_commute)
  show "cache (transferCache A B) ip =
          (case cache B ip of None \<Rightarrow> cache A ip | Some v \<Rightarrow> Some v)"
    by (simp add: transferCache_def map_add_def)
qed

section \<open>Properties of the orchestrator\<close>



section \<open>Properties of getCountry\<close>

lemma clientFormatResult_error:
  "clientFormatResult c [(''apiUrl'', Str u), (''error'', errorValue e)] =
     Obj [(''error'', Obj [(''message'', Str (message e))]),
          (''meta'', Obj [(''apiUrl'', Str u),
                          (''rateLimit'', Num (rateLimit c)),
                          (''rateLimitCount'', Num (rateLimitCount c)),
                          (''status'', Num (case status e of None \<Rightarrow> 400
                                             | Some s \<Rightarrow> if s = 0 then 400 else s))])]"
  by (cases e) (simp add: clientFormatResult_def formatResult_def field_def errorValue_def
      member_def jsOr_def split: option.splits)

lemma clientFormatResult_cached:
  "clientFormatResult c [(''cache'', Bool True), (''name'', v)] =
     Obj [(''data'', Obj [(''name'', v)]),
          (''meta'', Obj [(''apiUrl'', Undefined),
                          (''cache'', Bool True),
                          (''rateLimit'', Num (rateLimit c)),
                          (''rateLimitCount'', Num (rateLimitCount c)),
                          (''status'', Num 200)])]"
  by (simp add: clientFormatResult_def formatResult_def field_def)

lemma clientFormatResult_fresh:
  "clientFormatResult c [(''apiUrl'', Str u), (''name'', v)] =
     Obj [(''data'', Obj [(''name'', v)]),
          (''meta'', Obj [(''apiUrl'', Str u),
                          (''cache'', Bool False),
                          (''rateLimit'', Num (rateLimit c)),
                          (''rateLimitCount'', Num (rateLimitCount c)),
                          (''status'', Num 200)])]"
  by (simp add: clientFormatResult_def formatResult_def field_def)

text \<open>The four ways through getCountry.\<close>

lemma getCountry_cached:
  "truthy (cacheGet c ip) \<Longrightarrow>
   getCountry clk upstream ip c =
     \<lparr> envelope = clientFormatResult c [(''cache'', Bool True), (''name'', cacheGet c ip)],
       state = c, fetched = None, logged = None \<rparr>"
  by (simp add: getCountry_def tryGetCountry_def)

lemma tryGetCountry_limited:
  "\<not> truthy (cacheGet c ip) \<Longrightarrow> handleRateLimiting clk c = (Some e, c1) \<Longrightarrow>
   tryGetCountry u clk upstream ip c = Inl (e, c1, None)"
  by (simp add: tryGetCountry_def)

lemma tryGetCountry_failed:
  "\<not> truthy (cacheGet c ip) \<Longrightarrow> handleRateLimiting clk c = (None, c1) \<Longrightarrow>
   fetchCountryName (provider c1) upstream = Inl e \<Longrightarrow>
   tryGetCountry u clk upstream ip c = Inl (e, c1, Some (u, headers c1))"
  by (simp add: tryGetCountry_def)

lemma tryGetCountry_resolved:
  "\<not> truthy (cacheGet c ip) \<Longrightarrow> handleRateLimiting clk c = (None, c1) \<Longrightarrow>
   fetchCountryName (provider c1) upstream = Inr name \<Longrightarrow>
   tryGetCountry u clk upstream ip c =
     Inr \<lparr> envelope = clientFormatResult (c1\<lparr> cache := (cache c1)(ip \<mapsto> name) \<rparr>)
                       [(''apiUrl'', Str u), (''name'', name)],
           state = c1\<lparr> cache := (cache c1)(ip \<mapsto> name) \<rparr>,
           fetched = Some (u, headers c1),
           logged = None \<rparr>"
  by (simp add: tryGetCountry_def Let_def)

lemma getCountry_thrown:
  "tryGetCountry (getCountryApiUrl c ip) clk upstream ip c = Inl (e, c1, req) \<Longrightarrow>
   getCountry clk upstream ip c =
     \<lparr> envelope = clientFormatResult c1 [(''apiUrl'', Str (getCountryApiUrl c ip)),
                                          (''error'', errorValue e)],
       state = c1, fetched = req,
       logged = (case status e of None \<Rightarrow> Some e
                 | Some s \<Rightarrow> if s = 0 \<or> s \<ge> 500 then Some e else None) \<rparr>"
  by (simp add: getCountry_def)

lemma getCountry_returned:
  "tryGetCountry (getCountryApiUrl c ip) clk upstream ip c = Inr r \<Longrightarrow>
   getCountry clk upstream ip c = r"
  by (simp add: getCountry_def)

text \<open>handleRateLimiting\<close>

lemma ApiError_Str:
  "throwNew (ApiError (Str m) st) = JsError m (Some (if st \<noteq> 0 then st else 400))"
  by (simp add: ApiError_def throwNew_def)

lemma throwNew_status: "status (throwNew (ApiError msg st)) \<noteq> Some 0"
  by (simp add: ApiError_def throwNew_def split: option.splits)

lemma handleRateLimiting_cases:
  "handleRateLimiting t c =
     (let c1 = (if isRateLimitExpired (testAt t) c
                then c\<lparr> rateLimitExpiry := Some (jsAdd (resetAt t) (rateLimitTimeframe c)),
                        rateLimitCount := 0 \<rparr> else c)
      in if isRateLimited (gateAt t) c1 then (Some (JsError ''Rate limited'' (Some 429)), c1)
         else (None, c1\<lparr> rateLimitCount := rateLimitCount c1 + 1 \<rparr>))"
  by (simp add: handleRateLimiting_def ApiError_Str Let_def)

lemma thrown_status_nonzero_fetch:
  "fetchCountryName p upstream = Inl e \<Longrightarrow> status e \<noteq> Some 0"
  by (auto simp: fetchCountryName_def validateResponse_def validateResult_def throwNew_status
      typeError_def getCountryNameFromResult_def Let_def
      split: fetchOutcome.splits option.splits jsonOutcome.splits provider.splits
        if_splits sum.splits)

lemma thrown_status_nonzero:
  "tryGetCountry u clk upstream ip c = Inl (e, c1, req) \<Longrightarrow> status e \<noteq> Some 0"
  by (auto simp: tryGetCountry_def Let_def handleRateLimiting_cases
      dest: thrown_status_nonzero_fetch
      split: if_splits option.splits sum.splits prod.splits)


lemma handleRateLimiting_cache: "cache (snd (handleRateLimiting clk c)) = cache c"
  by (simp add: handleRateLimiting_cases Let_def)

lemma fetchCountryName_truthy: "fetchCountryName p upstream = Inr name \<Longrightarrow> truthy name"
  by (auto simp: fetchCountryName_def split: fetchOutcome.splits option.splits
      jsonOutcome.splits sum.splits if_splits)

lemma getCountry_cases [case_names cached thrown resolved]:
  obtains
    (cached) "truthy (cacheGet c ip)"
      "getCountry clk upstream ip c =
         \<lparr> envelope = Obj [(''data'', Obj [(''name'', cacheGet c ip)]),
                            (''meta'', Obj [(''apiUrl'', Undefined),
                                            (''cache'', Bool True),
                                            (''rateLimit'', Num (rateLimit c)),
                                            (''rateLimitCount'', Num (rateLimitCount c)),
                                            (''status'', Num 200)])],
           state = c, fetched = None, logged = None \<rparr>"
  | (thrown) e c1 req where "\<not> truthy (cacheGet c ip)"
      "tryGetCountry (getCountryApiUrl c ip) clk upstream ip c = Inl (e, c1, req)"
      "cache c1 = cache c"
      "getCountry clk upstream ip c =
         \<lparr> envelope =
             Obj [(''error'', Obj [(''message'', Str (message e))]),
                  (''meta'', Obj [(''apiUrl'', Str (getCountryApiUrl c ip)),
                                  (''rateLimit'', Num (rateLimit c1)),
                                  (''rateLimitCount'', Num (rateLimitCount c1)),
                                  (''status'', Num (case status e of None \<Rightarrow> 400
                                                    | Some s \<Rightarrow> s))])],
           state = c1, fetched = req,
           logged = (case status e of None \<Rightarrow> Some e
                     | Some s \<Rightarrow> if s \<ge> 500 then Some e else None) \<rparr>"
  | (resolved) c1 name where "\<not> truthy (cacheGet c ip)"
      "handleRateLimiting clk c = (None, c1)"
      "fetchCountryName (provider c1) upstream = Inr name" "truthy name"
      "getCountry clk upstream ip c =
         \<lparr> envelope =
             Obj [(''data'', Obj [(''name'', name)]),
                  (''meta'', Obj [(''apiUrl'', Str (getCountryApiUrl c ip)),
                                  (''cache'', Bool False),
                                  (''rateLimit'', Num (rateLimit c1)),
                                  (''rateLimitCount'', Num (rateLimitCount c1)),
                                  (''status'', Num 200)])],
           state = c1\<lparr> cache := (cache c1)(ip \<mapsto> name) \<rparr>,
           fetched = Some (getCountryApiUrl c ip, headers c1), logged = None \<rparr>"
proof (cases "truthy (cacheGet c ip)")
  case True
  then show ?thesis
    using cached by (simp add: getCountry_cached clientFormatResult_cached)
next
  case miss: False
  obtain t c1 where h: "handleRateLimiting clk c = (t, c1)"
    by (cases "handleRateLimiting clk c")
  have c1: "cache c1 = cache c"
    using handleRateLimiting_cache [of clk c] h by simp
  let ?u = "getCountryApiUrl c ip"
  show ?thesis
  proof (cases t)
    case (Some e)
    with miss h have t: "tryGetCountry ?u clk upstream ip c = Inl (e, c1, None)"
      by (simp add: tryGetCountry_limited)
    have z: "status e \<noteq> Some 0" using t by (rule thrown_status_nonzero)
    show ?thesis
      using thrown [OF miss t c1] z
      by (simp add: getCountry_thrown [OF t] clientFormatResult_error split: option.splits)
  next
    case None
    show ?thesis
    proof (cases "fetchCountryName (provider c1) upstream")
      case (Inl e)
      with miss h None have t:
        "tryGetCountry ?u clk upstream ip c = Inl (e, c1, Some (?u, headers c1))"
        by (simp add: tryGetCountry_failed)
      have z: "status e \<noteq> Some 0" using t by (rule thrown_status_nonzero)
      show ?thesis
        using thrown [OF miss t c1] z
        by (simp add: getCountry_thrown [OF t] clientFormatResult_error split: option.splits)
    next
      case (Inr name)
      with miss h None have t: "tryGetCountry ?u clk upstream ip c =
          Inr \<lparr> envelope = clientFormatResult (c1\<lparr> cache := (cache c1)(ip \<mapsto> name) \<rparr>)
                       [(''apiUrl'', Str ?u), (''name'', name)],
           state = c1\<lparr> cache := (cache c1)(ip \<mapsto> name) \<rparr>,
           fetched = Some (?u, headers c1),
           logged = None \<rparr>"
        by (simp add: tryGetCountry_resolved)
      show ?thesis
        using resolved [OF miss _ Inr fetchCountryName_truthy [OF Inr]] h None
        by (simp add: getCountry_returned [OF t] clientFormatResult_fresh)
    qed
  qed
qed

lemma reachable_cache_truthy: "reachable c \<Longrightarrow> cache c ip = Some v \<Longrightarrow> truthy v"
proof (induction arbitrary: ip v rule: reachable.induct)
  case (constructed url limit timeframe tok)
  then show ?case by (simp add: newApiClient_def)
next
  case (constructedIpxapi url limit timeframe tok)
  then show ?case by (simp add: newApiClientIpxapi_def newApiClient_def)
next
  case (called c clk upstream ip')
  show ?case
  proof (cases rule: getCountry_cases [where c = c and ip = ip' and clk = clk and upstream = upstream])
    case cached
    with called show ?thesis by simp
  next
    case (thrown e c1 req)
    with called show ?thesis by simp
  next
    case (resolved c1 name)
    have "cache c1 = cache c"
      using handleRateLimiting_cache [of clk c] resolved(2) by simp
    with called resolved show ?thesis by (auto split: if_splits)
  qed
next
  case (transferred c d)
  then show ?case by (auto simp: transferCache_def map_add_def split: option.splits)
qed

text \<open>The calls of the unit tests, evaluated.\<close>

lemmas fixture_defs = okResponse_def failedResponse_def ipstackClient_def ipxapiClient_def
  newApiClient_def newApiClientIpxapi_def DEFAULT_RATE_LIMIT_TIMEFRAME_def

lemmas call_defs = getCountry_def tryGetCountry_def cacheGet_def handleRateLimiting_def
  isRateLimited_def isRateLimitExpired_def fetchCountryName_def validateResponse_def
  validateResult_def getCountryNameFromResult_def getCountryApiUrl_def ApiError_def
  throwNew_def steady_def jsAdd_def roundDouble_def roundMagnitude_def
  field_def member_def jsOr_def Let_def

lemma somewhere_state:
  "state (getCountry (steady 1000) (okResponse (Obj [(''country_name'', Str ''Somewhere'')]))
            ''111.22.333.44'' ipstackClient) =
     ipstackClient\<lparr> cache := [''111.22.333.44'' \<mapsto> Str ''Somewhere''],
                     rateLimitCount := 1, rateLimitExpiry := Some 61000 \<rparr>"
  by (simp add: call_defs fixture_defs)

lemma somewhere_outcome:
  "getCountry (steady 1000) (okResponse (Obj [(''country_name'', Str ''Somewhere'')]))
            ''111.22.333.44'' ipstackClient =
     \<lparr> envelope =
         Obj [(''data'', Obj [(''name'', Str ''Somewhere'')]),
              (''meta'', Obj [(''apiUrl'', Str ''http://api.ipstack.com/111.22.333.44?access_key=abc123''),
                              (''cache'', Bool False),
                              (''rateLimit'', Num 5),
                              (''rateLimitCount'', Num 1),
                              (''status'', Num 200)])],
       state = ipstackClient\<lparr> cache := [''111.22.333.44'' \<mapsto> Str ''Somewhere''],
                     rateLimitCount := 1, rateLimitExpiry := Some 61000 \<rparr>,
       fetched = Some (''http://api.ipstack.com/111.22.333.44?access_key=abc123'', Undefined),
       logged = None \<rparr>"
  by (simp add: call_defs fixture_defs clientFormatResult_fresh)

lemma unauthorized_outcome:
  "getCountry (steady 1000) (failedResponse 401 ''Unauthorized'') ''111.22.333.44'' ipstackClient =
     \<lparr> envelope =
         Obj [(''error'', Obj [(''message'', Str ''401 Unauthorized'')]),
              (''meta'', Obj [(''apiUrl'', Str ''http://api.ipstack.com/111.22.333.44?access_key=abc123''),
                              (''rateLimit'', Num 5),
                              (''rateLimitCount'', Num 1),
                              (''status'', Num 401)])],
       state = ipstackClient\<lparr> rateLimitCount := 1, rateLimitExpiry := Some 61000 \<rparr>,
       fetched = Some (''http://api.ipstack.com/111.22.333.44?access_key=abc123'', Undefined),
       logged = None \<rparr>"
  by (simp add: call_defs fixture_defs clientFormatResult_error numberToString_def showMagnitude_def digit_def)

text \<open>
  Claim C5. When the cache of a client holds an entry for the IP, \<^verbatim>\<open>getCountry\<close> returns the
  success envelope with the cached name as data, \<^verbatim>\<open>meta.cache = true\<close> and no URL in the
  metadata, sends no request upstream, logs nothing, and leaves the client as it was:
  rateLimitCount, rateLimitExpiry and the cache are unchanged. The clients are those the
  program can hold; the names in their caches are truthy (\<open>reachable_cache_truthy\<close>),
  which is what \<^verbatim>\<open>if (cachedCountryName)\<close> tests.
\<close>

theorem getCountry_cache_hit:
  "reachable c \<Longrightarrow> cache c ip = Some name \<Longrightarrow>
   getCountry clk upstream ip c =
     \<lparr> envelope = Obj [(''data'', Obj [(''name'', name)]),
                        (''meta'', Obj [(''apiUrl'', Undefined),
                                        (''cache'', Bool True),
                                        (''rateLimit'', Num (rateLimit c)),
                                        (''rateLimitCount'', Num (rateLimitCount c)),
                                        (''status'', Num 200)])],
       state = c, fetched = None, logged = None \<rparr>"
proof -
  assume r: "reachable c" and hit: "cache c ip = Some name"
  from r hit have "truthy name" by (rule reachable_cache_truthy)
  with hit have "truthy (cacheGet c ip)" and "cacheGet c ip = name"
    by (simp_all add: cacheGet_def)
  then show ?thesis
    by (simp add: getCountry_cached clientFormatResult_cached)
qed

theorem getCountry_cache_hit_witness:
  "reachable (state (getCountry (steady 1000) (okResponse (Obj [(''country_name'', Str ''Somewhere'')]))
                       ''111.22.333.44'' ipstackClient))
   \<and> cache (state (getCountry (steady 1000) (okResponse (Obj [(''country_name'', Str ''Somewhere'')]))
                       ''111.22.333.44'' ipstackClient)) ''111.22.333.44''
       = Some (Str ''Somewhere'')
   \<and> getCountry (steady 2000) (FetchRejects ''fetch failed'') ''111.22.333.44''
         (state (getCountry (steady 1000) (okResponse (Obj [(''country_name'', Str ''Somewhere'')]))
                   ''111.22.333.44'' ipstackClient)) =
       \<lparr> envelope =
           Obj [(''data'', Obj [(''name'', Str ''Somewhere'')]),
                (''meta'', Obj [(''apiUrl'', Undefined),
                                (''cache'', Bool True),
                                (''rateLimit'', Num 5),
                                (''rateLimitCount'', Num 1),
                                (''status'', Num 200)])],
         state = state (getCountry (steady 1000) (okResponse (Obj [(''country_name'', Str ''Somewhere'')]))
                          ''111.22.333.44'' ipstackClient),
         fetched = None, logged = None \<rparr>"
proof -
  let ?c = "state (getCountry (steady 1000) (okResponse (Obj [(''country_name'', Str ''Somewhere'')]))
                     ''111.22.333.44'' ipstackClient)"
  have r: "reachable ?c"
    unfolding ipstackClient_def by (intro reachable.called reachable.constructed)
  have h: "cache ?c ''111.22.333.44'' = Some (Str ''Somewhere'')"
    by (simp add: somewhere_state)
  have n: "rateLimit ?c = 5" "rateLimitCount ?c = 1"
    unfolding somewhere_state by (simp_all add: fixture_defs)
  from getCountry_cache_hit [OF r h, of "steady 2000" "FetchRejects ''fetch failed''"] r h n
  show ?thesis by simp
qed

text \<open>
  Claim C9. A call of \<^verbatim>\<open>getCountry\<close> that returns an error envelope leaves the cache as it
  was. The cache changes only on a call that returns a success envelope with
  \<^verbatim>\<open>meta.cache = false\<close>, and then by the one entry from the IP to the name returned.
\<close>

theorem getCountry_cache_atomic:
  "(isErrorEnvelope (envelope (getCountry clk upstream ip c)) \<longrightarrow>
      cache (state (getCountry clk upstream ip c)) = cache c)
   \<and> (cache (state (getCountry clk upstream ip c)) \<noteq> cache c \<longrightarrow>
      isSuccessEnvelope (envelope (getCountry clk upstream ip c))
      \<and> member (member (envelope (getCountry clk upstream ip c)) ''meta'') ''cache''
          = Bool False
      \<and> cache (state (getCountry clk upstream ip c)) =
          (cache c)(ip \<mapsto> member (member (envelope (getCountry clk upstream ip c)) ''data'')
                               ''name''))"
proof (cases rule: getCountry_cases [where c = c and ip = ip and clk = clk and upstream = upstream])
  case cached
  then show ?thesis by simp
next
  case (thrown e c1 req)
  then show ?thesis by simp
next
  case (resolved c1 name)
  have "cache c1 = cache c"
    using handleRateLimiting_cache [of clk c] resolved(2) by simp
  with resolved show ?thesis by (simp add: member_def field_def)
qed


theorem getCountry_cache_atomic_witness:
  "isErrorEnvelope (envelope (getCountry (steady 1000) (failedResponse 401 ''Unauthorized'')
                                ''111.22.333.44'' ipstackClient))
   \<and> cache (state (getCountry (steady 1000) (failedResponse 401 ''Unauthorized'')
                      ''111.22.333.44'' ipstackClient)) = cache ipstackClient
   \<and> cache (state (getCountry (steady 1000) (okResponse (Obj [(''country_name'', Str ''Somewhere'')]))
                      ''111.22.333.44'' ipstackClient)) \<noteq> cache ipstackClient
   \<and> isSuccessEnvelope
         (envelope (getCountry (steady 1000) (okResponse (Obj [(''country_name'', Str ''Somewhere'')]))
                      ''111.22.333.44'' ipstackClient))
   \<and> cache (state (getCountry (steady 1000) (okResponse (Obj [(''country_name'', Str ''Somewhere'')]))
                      ''111.22.333.44'' ipstackClient)) =
       (cache ipstackClient)(''111.22.333.44'' \<mapsto> Str ''Somewhere'')"
proof -
  have e: "isErrorEnvelope (envelope (getCountry (steady 1000) (failedResponse 401 ''Unauthorized'')
                                ''111.22.333.44'' ipstackClient))"
    by (simp add: unauthorized_outcome)
  have d: "cache (state (getCountry (steady 1000) (okResponse (Obj [(''country_name'', Str ''Somewhere'')]))
                      ''111.22.333.44'' ipstackClient)) \<noteq> cache ipstackClient"
    unfolding somewhere_state by (simp add: ipstackClient_def newApiClient_def)
  have n: "member (member (envelope (getCountry (steady 1000)
             (okResponse (Obj [(''country_name'', Str ''Somewhere'')]))
                      ''111.22.333.44'' ipstackClient)) ''data'') ''name'' = Str ''Somewhere''"
    by (simp add: somewhere_outcome member_def field_def)
  from getCountry_cache_atomic [where c = ipstackClient and ip = "''111.22.333.44''" and clk = "steady 1000"
         and upstream = "failedResponse 401 ''Unauthorized''"]
       getCountry_cache_atomic [where c = ipstackClient and ip = "''111.22.333.44''" and clk = "steady 1000"
         and upstream = "okResponse (Obj [(''country_name'', Str ''Somewhere'')])"]
       e d n
  show ?thesis by simp
qed

lemma handleRateLimiting_provider:
  "handleRateLimiting clk c = (t, c1) \<Longrightarrow> provider c1 = provider c"
  by (auto simp: handleRateLimiting_cases Let_def split: if_splits)

lemma fetchCountryName_fails:
  assumes "upstream = FetchRejects m
     \<or> upstream = FetchResolves r \<and> \<not> ok r
     \<or> upstream = FetchResolves r \<and> json r = JsonRejects m
     \<or> upstream = FetchResolves r \<and> json r = JsonResolves body
         \<and> validateResult p body \<noteq> None
     \<or> upstream = FetchResolves r \<and> json r = JsonResolves body
         \<and> getCountryNameFromResult p body = Inr name \<and> \<not> truthy name"
  shows "isl (fetchCountryName p upstream)"
  using assms
  by (auto simp: fetchCountryName_def validateResponse_def
      split: option.splits jsonOutcome.splits sum.splits)

lemma tryGetCountry_throws:
  assumes "\<not> truthy (cacheGet c ip)"
    and "fst (handleRateLimiting clk c) \<noteq> None \<or> isl (fetchCountryName (provider c) upstream)"
  shows "isl (tryGetCountry u clk upstream ip c)"
proof -
  obtain t c1 where h: "handleRateLimiting clk c = (t, c1)"
    by (cases "handleRateLimiting clk c")
  note p = handleRateLimiting_provider [OF h]
  from assms h p show ?thesis
    by (cases t; cases "fetchCountryName (provider c) upstream")
       (simp_all add: tryGetCountry_def)
qed

lemma getCountry_thrown_envelope:
  assumes "isl (tryGetCountry (getCountryApiUrl c ip) clk upstream ip c)"
  shows "isErrorEnvelope (envelope (getCountry clk upstream ip c))"
proof (cases rule: getCountry_cases [where c = c and ip = ip and clk = clk and upstream = upstream])
  case cached
  with assms show ?thesis by (simp add: tryGetCountry_def)
next
  case (thrown e c1 req)
  then show ?thesis by simp
next
  case (resolved c1 name)
  with assms show ?thesis by (simp add: tryGetCountry_resolved)
qed

text \<open>
  Claim C4. \<^verbatim>\<open>getCountry\<close> never throws. When its \<^verbatim>\<open>try\<close> block returns, the call returns
  that success envelope and logs nothing. When the block throws, the call returns the
  error envelope with the message of the error, the computed URL and the current rate
  limit counters of the client, and the error goes to the logger exactly when it has no
  status or a status of 500 or more. On a call that misses the cache the block throws,
  and the call returns an error envelope, whenever the rate limit is exhausted,
  \<^verbatim>\<open>fetch\<close> rejects, the response is not ok, \<^verbatim>\<open>json()\<close> rejects, the payload signals an
  error, or the country is missing.
\<close>

theorem getCountry_never_throws:
  "(case tryGetCountry (getCountryApiUrl c ip) clk upstream ip c of
      Inr r \<Rightarrow>
        getCountry clk upstream ip c = r \<and> isSuccessEnvelope (envelope r) \<and> logged r = None
    | Inl (e, c1, req) \<Rightarrow>
        getCountry clk upstream ip c =
          \<lparr> envelope =
              Obj [(''error'', Obj [(''message'', Str (message e))]),
                   (''meta'', Obj [(''apiUrl'', Str (getCountryApiUrl c ip)),
                                   (''rateLimit'', Num (rateLimit c1)),
                                   (''rateLimitCount'', Num (rateLimitCount c1)),
                                   (''status'', Num (case status e of None \<Rightarrow> 400
                                                     | Some s \<Rightarrow> s))])],
            state = c1, fetched = req,
            logged = (if status e = None \<or> (\<exists>s. status e = Some s \<and> 500 \<le> s)
                      then Some e else None) \<rparr>)
   \<and> (\<not> truthy (cacheGet c ip)
        \<and> (fst (handleRateLimiting clk c) \<noteq> None
           \<or> upstream = FetchRejects m
           \<or> upstream = FetchResolves r \<and> \<not> ok r
           \<or> upstream = FetchResolves r \<and> json r = JsonRejects m
           \<or> upstream = FetchResolves r \<and> json r = JsonResolves body
               \<and> validateResult (provider c) body \<noteq> None
           \<or> upstream = FetchResolves r \<and> json r = JsonResolves body
               \<and> getCountryNameFromResult (provider c) body = Inr name \<and> \<not> truthy name)
        \<longrightarrow> isl (tryGetCountry (getCountryApiUrl c ip) clk upstream ip c)
            \<and> isErrorEnvelope (envelope (getCountry clk upstream ip c)))"
proof
  show "case tryGetCountry (getCountryApiUrl c ip) clk upstream ip c of
      Inr r \<Rightarrow>
        getCountry clk upstream ip c = r \<and> isSuccessEnvelope (envelope r) \<and> logged r = None
    | Inl (e, c1, req) \<Rightarrow>
        getCountry clk upstream ip c =
          \<lparr> envelope =
              Obj [(''error'', Obj [(''message'', Str (message e))]),
                   (''meta'', Obj [(''apiUrl'', Str (getCountryApiUrl c ip)),
                                   (''rateLimit'', Num (rateLimit c1)),
                                   (''rateLimitCount'', Num (rateLimitCount c1)),
                                   (''status'', Num (case status e of None \<Rightarrow> 400
                                                     | Some s \<Rightarrow> s))])],
            state = c1, fetched = req,
            logged = (if status e = None \<or> (\<exists>s. status e = Some s \<and> 500 \<le> s)
                      then Some e else None) \<rparr>"
  proof (cases rule: getCountry_cases [where c = c and ip = ip and clk = clk and upstream = upstream])
    case cached
    then show ?thesis
      by (simp add: tryGetCountry_def clientFormatResult_cached)
  next
    case (thrown e c1 req)
    then show ?thesis by (auto split: option.splits)
  next
    case (resolved c1 name)
    then show ?thesis
      by (simp add: tryGetCountry_resolved clientFormatResult_fresh)
  qed
  show "\<not> truthy (cacheGet c ip)
        \<and> (fst (handleRateLimiting clk c) \<noteq> None
           \<or> upstream = FetchRejects m
           \<or> upstream = FetchResolves r \<and> \<not> ok r
           \<or> upstream = FetchResolves r \<and> json r = JsonRejects m
           \<or> upstream = FetchResolves r \<and> json r = JsonResolves body
               \<and> validateResult (provider c) body \<noteq> None
           \<or> upstream = FetchResolves r \<and> json r = JsonResolves body
               \<and> getCountryNameFromResult (provider c) body = Inr name \<and> \<not> truthy name)
        \<longrightarrow> isl (tryGetCountry (getCountryApiUrl c ip) clk upstream ip c)
            \<and> isErrorEnvelope (envelope (getCountry clk upstream ip c))"
  proof (intro impI, elim conjE)
    assume miss: "\<not> truthy (cacheGet c ip)"
      and kinds: "fst (handleRateLimiting clk c) \<noteq> None
           \<or> upstream = FetchRejects m
           \<or> upstream = FetchResolves r \<and> \<not> ok r
           \<or> upstream = FetchResolves r \<and> json r = JsonRejects m
           \<or> upstream = FetchResolves r \<and> json r = JsonResolves body
               \<and> validateResult (provider c) body \<noteq> None
           \<or> upstream = FetchResolves r \<and> json r = JsonResolves body
               \<and> getCountryNameFromResult (provider c) body = Inr name \<and> \<not> truthy name"
    have "fst (handleRateLimiting clk c) \<noteq> None
          \<or> isl (fetchCountryName (provider c) upstream)"
    proof (cases "fst (handleRateLimiting clk c) = None")
      case True
      with kinds have "upstream = FetchRejects m
           \<or> upstream = FetchResolves r \<and> \<not> ok r
           \<or> upstream = FetchResolves r \<and> json r = JsonRejects m
           \<or> upstream = FetchResolves r \<and> json r = JsonResolves body
               \<and> validateResult (provider c) body \<noteq> None
           \<or> upstream = FetchResolves r \<and> json r = JsonResolves body
               \<and> getCountryNameFromResult (provider c) body = Inr name \<and> \<not> truthy name"
        by simp
      then have "isl (fetchCountryName (provider c) upstream)"
        by (rule fetchCountryName_fails)
      then show ?thesis by simp
    next
      case False
      then show ?thesis by simp
    qed
    with miss have t: "isl (tryGetCountry (getCountryApiUrl c ip) clk upstream ip c)"
      by (rule tryGetCountry_throws)
    then have "isErrorEnvelope (envelope (getCountry clk upstream ip c))"
      by (rule getCountry_thrown_envelope)
    with t show "isl (tryGetCountry (getCountryApiUrl c ip) clk upstream ip c)
            \<and> isErrorEnvelope (envelope (getCountry clk upstream ip c))"
      by simp
  qed
qed

theorem getCountry_never_throws_witness:
  "getCountry (steady 1000) (FetchRejects ''fetch failed'') ''111.22.333.44'' ipstackClient =
     \<lparr> envelope =
         Obj [(''error'', Obj [(''message'', Str ''fetch failed'')]),
              (''meta'', Obj [(''apiUrl'', Str ''http://api.ipstack.com/111.22.333.44?access_key=abc123''),
                              (''rateLimit'', Num 5),
                              (''rateLimitCount'', Num 1),
                              (''status'', Num 400)])],
       state = ipstackClient\<lparr> rateLimitCount := 1, rateLimitExpiry := Some 61000 \<rparr>,
       fetched = Some (''http://api.ipstack.com/111.22.333.44?access_key=abc123'', Undefined),
       logged = Some (JsError ''fetch failed'' None) \<rparr>
   \<and> logged (getCountry (steady 1000) (failedResponse 503 ''Service Unavailable'') ''111.22.333.44''
                ipstackClient) = Some (JsError ''503 Service Unavailable'' (Some 503))
   \<and> logged (getCountry (steady 1000) (failedResponse 401 ''Unauthorized'') ''111.22.333.44''
                ipstackClient) = None
   \<and> isErrorEnvelope (envelope (getCountry (steady 1000) (okResponse Null) ''111.22.333.44''
                                   ipstackClient))"
proof -
  let ?u = "''http://api.ipstack.com/111.22.333.44?access_key=abc123''"
  let ?ip = "''111.22.333.44''"
  have u: "getCountryApiUrl ipstackClient ?ip = ?u"
    by (simp add: getCountryApiUrl_def fixture_defs)
  have a: "tryGetCountry ?u (steady 1000) (FetchRejects ''fetch failed'') ?ip ipstackClient =
      Inl (JsError ''fetch failed'' None,
           ipstackClient\<lparr> rateLimitCount := 1, rateLimitExpiry := Some 61000 \<rparr>,
           Some (?u, Undefined))"
    by (simp add: call_defs fixture_defs)
  have b: "tryGetCountry ?u (steady 1000) (failedResponse 503 ''Service Unavailable'') ?ip
             ipstackClient =
      Inl (JsError ''503 Service Unavailable'' (Some 503),
           ipstackClient\<lparr> rateLimitCount := 1, rateLimitExpiry := Some 61000 \<rparr>,
           Some (?u, Undefined))"
    by (simp add: call_defs fixture_defs numberToString_def showMagnitude_def digit_def)
  have c: "tryGetCountry ?u (steady 1000) (failedResponse 401 ''Unauthorized'') ?ip
             ipstackClient =
      Inl (JsError ''401 Unauthorized'' (Some 401),
           ipstackClient\<lparr> rateLimitCount := 1, rateLimitExpiry := Some 61000 \<rparr>,
           Some (?u, Undefined))"
    by (simp add: call_defs fixture_defs numberToString_def showMagnitude_def digit_def)
  have n: "rateLimit ipstackClient = 5"
    by (simp add: fixture_defs)
  let ?r = "\<lparr> ok = True, httpStatus = 200, statusText = ''OK'', json = JsonResolves Null \<rparr>"
  have d: "\<not> truthy (cacheGet ipstackClient ?ip)" "okResponse Null = FetchResolves ?r"
    "json ?r = JsonResolves Null" "validateResult (provider ipstackClient) Null \<noteq> None"
    by (simp_all add: cacheGet_def fixture_defs validateResult_def)
  from getCountry_never_throws [where c = ipstackClient and ip = ?ip and clk = "steady 1000"
         and upstream = "FetchRejects ''fetch failed''"]
  have 1: "getCountry (steady 1000) (FetchRejects ''fetch failed'') ?ip ipstackClient =
     \<lparr> envelope =
         Obj [(''error'', Obj [(''message'', Str ''fetch failed'')]),
              (''meta'', Obj [(''apiUrl'', Str ?u),
                              (''rateLimit'', Num 5),
                              (''rateLimitCount'', Num 1),
                              (''status'', Num 400)])],
       state = ipstackClient\<lparr> rateLimitCount := 1, rateLimitExpiry := Some 61000 \<rparr>,
       fetched = Some (?u, Undefined),
       logged = Some (JsError ''fetch failed'' None) \<rparr>"
    unfolding u a by (simp add: n)
  from getCountry_never_throws [where c = ipstackClient and ip = ?ip and clk = "steady 1000"
         and upstream = "failedResponse 503 ''Service Unavailable''"]
  have 2: "logged (getCountry (steady 1000) (failedResponse 503 ''Service Unavailable'') ?ip
                ipstackClient) = Some (JsError ''503 Service Unavailable'' (Some 503))"
    unfolding u b by (simp add: n)
  from getCountry_never_throws [where c = ipstackClient and ip = ?ip and clk = "steady 1000"
         and upstream = "failedResponse 401 ''Unauthorized''"]
  have 3: "logged (getCountry (steady 1000) (failedResponse 401 ''Unauthorized'') ?ip
                ipstackClient) = None"
    unfolding u c by (simp add: n)
  from getCountry_never_throws [where c = ipstackClient and ip = ?ip and clk = "steady 1000"
         and upstream = "okResponse Null" and r = ?r and body = Null] d
  have 4: "isErrorEnvelope (envelope (getCountry (steady 1000) (okResponse Null) ?ip ipstackClient))"
    by blast
  from 1 2 3 4 show ?thesis by simp
qed







section \<open>Properties of the rate limit\<close>

lemma isRateLimitExpired_window:
  "0 < now \<Longrightarrow> isRateLimitExpired now c = windowExpired now c"
  by (auto simp: isRateLimitExpired_def windowExpired_def split: option.splits)

lemma handleRateLimiting_open:
  "\<not> isRateLimitExpired (testAt clk) c \<Longrightarrow> \<not> isRateLimitExpired (gateAt clk) c \<Longrightarrow>
   handleRateLimiting clk c =
     (if rateLimit c \<le> rateLimitCount c then (Some (JsError ''Rate limited'' (Some 429)), c)
      else (None, c\<lparr> rateLimitCount := rateLimitCount c + 1 \<rparr>))"
  by (simp add: handleRateLimiting_cases isRateLimited_def)

lemma handleRateLimiting_expired_budget:
  "isRateLimitExpired (testAt clk) c \<Longrightarrow> 0 < rateLimit c \<Longrightarrow>
   handleRateLimiting clk c =
     (None, c\<lparr> rateLimitExpiry := Some (jsAdd (resetAt clk) (rateLimitTimeframe c)),
               rateLimitCount := 1 \<rparr>)"
  by (simp add: handleRateLimiting_cases isRateLimited_def Let_def)

lemma jsAdd_exact: "\<bar>a + b\<bar> < 2 ^ 53 \<Longrightarrow> jsAdd a b = a + b"
  by (auto simp: jsAdd_def roundDouble_def roundMagnitude_def)

lemma getCountry_state:
  "state (getCountry clk upstream ip c) =
     (if truthy (cacheGet c ip) then c
      else case fetchCountryName (provider c) upstream of
             Inl e \<Rightarrow> snd (handleRateLimiting clk c)
           | Inr name \<Rightarrow>
               if fst (handleRateLimiting clk c) = None
               then (snd (handleRateLimiting clk c))
                      \<lparr> cache := (cache c)(ip \<mapsto> name) \<rparr>
               else snd (handleRateLimiting clk c))"
proof (cases rule: getCountry_cases [where c = c and ip = ip and clk = clk and upstream = upstream])
  case cached
  then show ?thesis by simp
next
  case (thrown e c1 req)
  obtain t c' where h: "handleRateLimiting clk c = (t, c')"
    by (cases "handleRateLimiting clk c")
  note p = handleRateLimiting_provider [OF h]
  from thrown h p show ?thesis
    by (auto simp: tryGetCountry_def Let_def split: option.splits sum.splits)
next
  case (resolved c1 name)
  note p = handleRateLimiting_provider [OF resolved(2)]
  have "cache c1 = cache c"
    using handleRateLimiting_cache [of clk c] resolved(2) by simp
  with resolved p show ?thesis by simp
qed

lemma getCountry_metaCount:
  "member (member (envelope (getCountry clk upstream ip c)) ''meta'') ''rateLimitCount'' =
     Num (rateLimitCount (state (getCountry clk upstream ip c)))"
  by (cases rule: getCountry_cases [where c = c and ip = ip and clk = clk and upstream = upstream])
     (simp_all add: member_def field_def)

lemma getCountry_fetched:
  "fetched (getCountry clk upstream ip c) =
     (if truthy (cacheGet c ip) \<or> fst (handleRateLimiting clk c) \<noteq> None then None
      else Some (getCountryApiUrl c ip, headers c))"
proof (cases rule: getCountry_cases [where c = c and ip = ip and clk = clk and upstream = upstream])
  case cached
  then show ?thesis by simp
next
  case (thrown e c1 req)
  then show ?thesis
    by (auto simp: tryGetCountry_def handleRateLimiting_cases Let_def
        split: option.splits sum.splits if_splits)
next
  case (resolved c1 name)
  then show ?thesis
    by (auto simp: handleRateLimiting_cases Let_def split: if_splits)
qed

lemma getCountry_rateLimited:
  "\<not> truthy (cacheGet c ip) \<Longrightarrow> handleRateLimiting clk c = (Some e, c1) \<Longrightarrow>
   getCountry clk upstream ip c =
     \<lparr> envelope =
         Obj [(''error'', Obj [(''message'', Str ''Rate limited'')]),
              (''meta'', Obj [(''apiUrl'', Str (getCountryApiUrl c ip)),
                              (''rateLimit'', Num (rateLimit c1)),
                              (''rateLimitCount'', Num (rateLimitCount c1)),
                              (''status'', Num 429)])],
       state = c1, fetched = None, logged = None \<rparr>"
proof -
  assume miss: "\<not> truthy (cacheGet c ip)" and h: "handleRateLimiting clk c = (Some e, c1)"
  from h have e: "e = JsError ''Rate limited'' (Some 429)"
    by (auto simp: handleRateLimiting_cases Let_def split: if_splits)
  from miss h have "tryGetCountry (getCountryApiUrl c ip) clk upstream ip c = Inl (e, c1, None)"
    by (rule tryGetCountry_limited)
  then show ?thesis
    by (simp add: getCountry_thrown clientFormatResult_error e)
qed

lemma handleRateLimiting_keeps:
  "provider (snd (handleRateLimiting clk c)) = provider c
   \<and> baseUrl (snd (handleRateLimiting clk c)) = baseUrl c
   \<and> token (snd (handleRateLimiting clk c)) = token c
   \<and> headers (snd (handleRateLimiting clk c)) = headers c
   \<and> rateLimit (snd (handleRateLimiting clk c)) = rateLimit c
   \<and> rateLimitTimeframe (snd (handleRateLimiting clk c)) = rateLimitTimeframe c"
  by (simp add: handleRateLimiting_cases Let_def)

lemma getCountry_keeps:
  "provider (state (getCountry clk upstream ip c)) = provider c
   \<and> baseUrl (state (getCountry clk upstream ip c)) = baseUrl c
   \<and> token (state (getCountry clk upstream ip c)) = token c
   \<and> headers (state (getCountry clk upstream ip c)) = headers c
   \<and> rateLimit (state (getCountry clk upstream ip c)) = rateLimit c
   \<and> rateLimitTimeframe (state (getCountry clk upstream ip c)) = rateLimitTimeframe c"
  using handleRateLimiting_keeps [of clk c]
  by (simp add: getCountry_state split: sum.splits)

lemma getCountry_url:
  "getCountryApiUrl (state (getCountry clk upstream ip c)) ip' = getCountryApiUrl c ip'"
  using getCountry_keeps [of clk upstream ip c]
  by (simp add: getCountryApiUrl_def split: provider.splits)

lemma getCountry_cache_other:
  "ip' \<noteq> ip \<Longrightarrow> cache (state (getCountry clk upstream ip c)) ip' = cache c ip'"
  using handleRateLimiting_cache [of clk c]
  by (simp add: getCountry_state split: sum.splits)

lemma getCountry_counters:
  "\<not> truthy (cacheGet c ip) \<Longrightarrow>
   rateLimitCount (state (getCountry clk upstream ip c)) =
     rateLimitCount (snd (handleRateLimiting clk c))
   \<and> rateLimitExpiry (state (getCountry clk upstream ip c)) =
     rateLimitExpiry (snd (handleRateLimiting clk c))"
  by (simp add: getCountry_state split: sum.splits)

text \<open>
  Claim C7. The window is reset lazily. \<^verbatim>\<open>isRateLimited\<close> is false when the window is expired
  or never started, and otherwise true exactly when rateLimitCount has reached rateLimit.
  A call served from the cache changes nothing. A call that misses the cache sets
  rateLimitExpiry to \<^verbatim>\<open>Date.now() + rateLimitTimeframe\<close> and counts from 0 exactly when, at
  its test for a reset, the window is expired or never started; otherwise it keeps
  rateLimitExpiry and counts from the current rateLimitCount. The count then grows by one
  unless \<^verbatim>\<open>isRateLimited\<close>, read at its own moment, holds of the window so opened or kept.
  The sum is the sum of the integers below \<open>2\<^sup>5\<^sup>3\<close>. \<^verbatim>\<open>transferCache\<close> touches neither
  field. The clock reads a positive number of milliseconds.
\<close>

theorem rate_limit_window_lazy:
  assumes "0 < now" and "0 < testAt clk"
  shows
  "isRateLimited now c =
     (if windowExpired now c then False else rateLimit c \<le> rateLimitCount c)
   \<and> (truthy (cacheGet c ip) \<longrightarrow> state (getCountry clk upstream ip c) = c)
   \<and> (\<not> truthy (cacheGet c ip) \<longrightarrow>
        rateLimitExpiry (state (getCountry clk upstream ip c)) =
          (if windowExpired (testAt clk) c
           then Some (jsAdd (resetAt clk) (rateLimitTimeframe c))
           else rateLimitExpiry c)
        \<and> rateLimitCount (state (getCountry clk upstream ip c)) =
          (let base = (if windowExpired (testAt clk) c then 0 else rateLimitCount c);
               opened = c\<lparr> rateLimitExpiry :=
                             (if windowExpired (testAt clk) c
                              then Some (jsAdd (resetAt clk) (rateLimitTimeframe c))
                              else rateLimitExpiry c),
                          rateLimitCount := base \<rparr>
           in if isRateLimited (gateAt clk) opened then base else base + 1))
   \<and> (\<bar>resetAt clk + rateLimitTimeframe c\<bar> < 2 ^ 53 \<longrightarrow>
        jsAdd (resetAt clk) (rateLimitTimeframe c) = resetAt clk + rateLimitTimeframe c)
   \<and> rateLimitCount (transferCache c d) = rateLimitCount c
   \<and> rateLimitExpiry (transferCache c d) = rateLimitExpiry c"
proof -
  note w = isRateLimitExpired_window [OF assms(2), of c]
  have a: "isRateLimited now c =
     (if windowExpired now c then False else rateLimit c \<le> rateLimitCount c)"
    by (simp add: isRateLimited_def isRateLimitExpired_window [OF assms(1)])
  have b: "state (getCountry clk upstream ip c) = c" if "truthy (cacheGet c ip)"
    using that by (simp add: getCountry_state)
  have c: "rateLimitExpiry (state (getCountry clk upstream ip c)) =
          (if windowExpired (testAt clk) c
           then Some (jsAdd (resetAt clk) (rateLimitTimeframe c))
           else rateLimitExpiry c)
        \<and> rateLimitCount (state (getCountry clk upstream ip c)) =
          (let base = (if windowExpired (testAt clk) c then 0 else rateLimitCount c);
               opened = c\<lparr> rateLimitExpiry :=
                             (if windowExpired (testAt clk) c
                              then Some (jsAdd (resetAt clk) (rateLimitTimeframe c))
                              else rateLimitExpiry c),
                          rateLimitCount := base \<rparr>
           in if isRateLimited (gateAt clk) opened then base else base + 1)"
    if miss: "\<not> truthy (cacheGet c ip)"
  proof (cases "windowExpired (testAt clk) c")
    case True
    with w show ?thesis
      by (simp add: getCountry_counters [OF miss] handleRateLimiting_cases Let_def)
  next
    case False
    with w show ?thesis
      by (simp add: getCountry_counters [OF miss] handleRateLimiting_cases Let_def)
  qed
  have d: "\<bar>resetAt clk + rateLimitTimeframe c\<bar> < 2 ^ 53 \<longrightarrow>
        jsAdd (resetAt clk) (rateLimitTimeframe c) = resetAt clk + rateLimitTimeframe c"
    by (simp add: jsAdd_exact)
  have e: "rateLimitCount (transferCache c d) = rateLimitCount c
   \<and> rateLimitExpiry (transferCache c d) = rateLimitExpiry c"
    by (simp add: transferCache_def)
  from a b c d e show ?thesis by blast
qed

theorem rate_limit_window_lazy_witness:
  "windowExpired 1000 ipstackClient
   \<and> \<not> isRateLimited 1000 ipstackClient
   \<and> rateLimitExpiry (state (getCountry (steady 1000) somewhere ''111.22.333.44'' ipstackClient))
       = Some 61000
   \<and> rateLimitCount (state (getCountry (steady 1000) somewhere ''111.22.333.44'' ipstackClient))
       = 1
   \<and> state (getCountry (steady 2000) somewhere ''111.22.333.44''
         (ipstackClient\<lparr> cache := [''111.22.333.44'' \<mapsto> Str ''Somewhere''],
                          rateLimitCount := 1, rateLimitExpiry := Some 61000 \<rparr>)) =
       ipstackClient\<lparr> cache := [''111.22.333.44'' \<mapsto> Str ''Somewhere''],
                          rateLimitCount := 1, rateLimitExpiry := Some 61000 \<rparr>
   \<and> \<not> windowExpired 2000
         ((newApiClient ''http://api.ipstack.com'' 1 (Some 1000) ''abc123'')
            \<lparr> rateLimitCount := 1, rateLimitExpiry := Some 2000 \<rparr>)
   \<and> isRateLimited 2000
         ((newApiClient ''http://api.ipstack.com'' 1 (Some 1000) ''abc123'')
            \<lparr> rateLimitCount := 1, rateLimitExpiry := Some 2000 \<rparr>)
   \<and> \<not> isRateLimited 2001
         ((newApiClient ''http://api.ipstack.com'' 1 (Some 1000) ''abc123'')
            \<lparr> rateLimitCount := 1, rateLimitExpiry := Some 2000 \<rparr>)
   \<and> rateLimitExpiry (state (getCountry \<lparr> testAt = 2000, resetAt = 2000, gateAt = 2001 \<rparr>
         somewhere ''2.2.2.2''
         ((newApiClient ''http://api.ipstack.com'' 1 (Some 1000) ''abc123'')
            \<lparr> rateLimitCount := 1, rateLimitExpiry := Some 2000 \<rparr>))) = Some 2000
   \<and> rateLimitCount (state (getCountry \<lparr> testAt = 2000, resetAt = 2000, gateAt = 2001 \<rparr>
         somewhere ''2.2.2.2''
         ((newApiClient ''http://api.ipstack.com'' 1 (Some 1000) ''abc123'')
            \<lparr> rateLimitCount := 1, rateLimitExpiry := Some 2000 \<rparr>))) = 2"
proof -
  let ?c = "ipstackClient\<lparr> cache := [''111.22.333.44'' \<mapsto> Str ''Somewhere''],
                          rateLimitCount := 1, rateLimitExpiry := Some 61000 \<rparr>"
  let ?d = "(newApiClient ''http://api.ipstack.com'' 1 (Some 1000) ''abc123'')
            \<lparr> rateLimitCount := 1, rateLimitExpiry := Some 2000 \<rparr>"
  let ?k = "\<lparr> testAt = 2000, resetAt = 2000, gateAt = 2001 \<rparr>"
  have t: "(0::int) < 1000" "(0::int) < 2000" "(0::int) < 2001"
    "0 < testAt (steady 1000)" "0 < testAt (steady 2000)" "0 < testAt ?k"
    by (simp_all add: steady_def)
  have f: "rateLimitTimeframe ipstackClient = 60000" "rateLimit ipstackClient = 5"
    "rateLimitCount ipstackClient = 0" "rateLimitExpiry ipstackClient = None"
    "rateLimit ?d = 1"
    by (simp_all add: fixture_defs)
  have w: "windowExpired 1000 ipstackClient" "\<not> windowExpired 2000 ?d" "windowExpired 2001 ?d"
    by (simp_all add: windowExpired_def fixture_defs)
  have m: "\<not> truthy (cacheGet ipstackClient ''111.22.333.44'')"
    "truthy (cacheGet ?c ''111.22.333.44'')" "\<not> truthy (cacheGet ?d ''2.2.2.2'')"
    by (simp_all add: cacheGet_def fixture_defs)
  from rate_limit_window_lazy [OF t(1) t(4), where c = ipstackClient
        and ip = "''111.22.333.44''" and upstream = somewhere] w m f
  have 1: "\<not> isRateLimited 1000 ipstackClient
   \<and> rateLimitExpiry (state (getCountry (steady 1000) somewhere ''111.22.333.44'' ipstackClient))
       = Some 61000
   \<and> rateLimitCount (state (getCountry (steady 1000) somewhere ''111.22.333.44'' ipstackClient))
       = 1"
    by (simp add: steady_def isRateLimited_def isRateLimitExpired_def)
  from rate_limit_window_lazy [OF t(2) t(5), where c = ?c
        and ip = "''111.22.333.44''" and upstream = somewhere] m
  have 2: "state (getCountry (steady 2000) somewhere ''111.22.333.44'' ?c) = ?c"
    by simp
  from rate_limit_window_lazy [OF t(2) t(6), where c = ?d
        and ip = "''2.2.2.2''" and upstream = somewhere] w m f
  have 3: "isRateLimited 2000 ?d
   \<and> rateLimitExpiry (state (getCountry ?k somewhere ''2.2.2.2'' ?d)) = Some 2000
   \<and> rateLimitCount (state (getCountry ?k somewhere ''2.2.2.2'' ?d)) = 2"
    by (simp add: isRateLimited_def isRateLimitExpired_def)
  from rate_limit_window_lazy [OF t(3) t(6), where c = ?d] w
  have 4: "\<not> isRateLimited 2001 ?d"
    by simp
  from 1 2 3 4 w show ?thesis by simp
qed

text \<open>
  Where the getter sees the window expired only if the test for a reset did, and the
  limit is positive, a call keeps rateLimitCount within rateLimit.
\<close>

lemma getCountry_count_step:
  assumes "rateLimitCount c \<le> rateLimit c" and "0 < rateLimit c"
    and "isRateLimitExpired (gateAt clk) c \<longrightarrow> isRateLimitExpired (testAt clk) c"
  shows "rateLimitCount (state (getCountry clk upstream ip c)) \<le> rateLimit c"
proof (cases "truthy (cacheGet c ip)")
  case True
  with assms show ?thesis by (simp add: getCountry_state)
next
  case miss: False
  show ?thesis
  proof (cases "isRateLimitExpired (testAt clk) c")
    case True
    with assms(2) show ?thesis
      by (simp add: getCountry_counters [OF miss] handleRateLimiting_expired_budget)
  next
    case False
    with assms show ?thesis
      by (simp add: getCountry_counters [OF miss] handleRateLimiting_open)
  qed
qed

text \<open>
  Claim C6 says that rateLimitCount never exceeds rateLimit. The code breaks it when the
  clock passes rateLimitExpiry inside one call: \<^verbatim>\<open>handleRateLimiting\<close> reads the clock in
  its test for a reset and again inside the getter \<^verbatim>\<open>isRateLimited\<close>. A client with
  rateLimit 1 and a timeframe of 1000 is called at 1000, which opens the window until 2000
  and counts 1. In the next call the test reads 2000, which is not after the expiry, so
  nothing is reset; the getter reads 2001 and finds the window expired, so the call is
  not turned away; the counter goes to 2, above the limit of 1, and the request is sent.
\<close>

theorem rateLimitCount_exceeds_limit:
  "getCountries (newApiClient ''http://api.ipstack.com'' 1 (Some 1000) ''abc123'')
     [(steady 1000, somewhere, ''1.1.1.1''),
      (\<lparr> testAt = 2000, resetAt = 2000, gateAt = 2001 \<rparr>, somewhere, ''2.2.2.2'')] ! 1 =
     \<lparr> envelope =
         Obj [(''data'', Obj [(''name'', Str ''Somewhere'')]),
              (''meta'', Obj [(''apiUrl'', Str ''http://api.ipstack.com/2.2.2.2?access_key=abc123''),
                              (''cache'', Bool False),
                              (''rateLimit'', Num 1),
                              (''rateLimitCount'', Num 2),
                              (''status'', Num 200)])],
       state = (newApiClient ''http://api.ipstack.com'' 1 (Some 1000) ''abc123'')
                 \<lparr> cache := [''1.1.1.1'' \<mapsto> Str ''Somewhere'', ''2.2.2.2'' \<mapsto> Str ''Somewhere''],
                   rateLimitCount := 2, rateLimitExpiry := Some 2000 \<rparr>,
       fetched = Some (''http://api.ipstack.com/2.2.2.2?access_key=abc123'', Undefined),
       logged = None \<rparr>"
  by (simp add: call_defs fixture_defs somewhere_def clientFormatResult_fresh)


text \<open>Calls inside one window: every reading of the clock is at or before the expiry.\<close>

lemma in_window_step:
  assumes "rateLimitExpiry c = Some e" and "e \<noteq> 0"
    and "testAt clk \<le> e" and "gateAt clk \<le> e" and "cache c ip = None"
  shows "rateLimitExpiry (state (getCountry clk upstream ip c)) = Some e"
    and "rateLimitCount c < rateLimit c \<Longrightarrow>
           rateLimitCount (state (getCountry clk upstream ip c)) = rateLimitCount c + 1
           \<and> fetched (getCountry clk upstream ip c) = Some (getCountryApiUrl c ip, headers c)"
    and "rateLimit c \<le> rateLimitCount c \<Longrightarrow>
           getCountry clk upstream ip c =
             \<lparr> envelope =
                 Obj [(''error'', Obj [(''message'', Str ''Rate limited'')]),
                      (''meta'', Obj [(''apiUrl'', Str (getCountryApiUrl c ip)),
                                      (''rateLimit'', Num (rateLimit c)),
                                      (''rateLimitCount'', Num (rateLimitCount c)),
                                      (''status'', Num 429)])],
               state = c, fetched = None, logged = None \<rparr>"
proof -
  from assms(5) have miss: "\<not> truthy (cacheGet c ip)"
    by (simp add: cacheGet_def)
  from assms(1-4) have inside: "\<not> isRateLimitExpired (testAt clk) c"
    "\<not> isRateLimitExpired (gateAt clk) c"
    by (simp_all add: isRateLimitExpired_def)
  note h = handleRateLimiting_open [OF inside]
  show "rateLimitExpiry (state (getCountry clk upstream ip c)) = Some e"
    using assms(1) by (simp add: getCountry_counters [OF miss] h)
  show "rateLimitCount (state (getCountry clk upstream ip c)) = rateLimitCount c + 1
           \<and> fetched (getCountry clk upstream ip c) = Some (getCountryApiUrl c ip, headers c)"
    if "rateLimitCount c < rateLimit c"
    using that miss by (simp add: getCountry_counters [OF miss] getCountry_fetched h)
  show "getCountry clk upstream ip c =
             \<lparr> envelope =
                 Obj [(''error'', Obj [(''message'', Str ''Rate limited'')]),
                      (''meta'', Obj [(''apiUrl'', Str (getCountryApiUrl c ip)),
                                      (''rateLimit'', Num (rateLimit c)),
                                      (''rateLimitCount'', Num (rateLimitCount c)),
                                      (''status'', Num 429)])],
               state = c, fetched = None, logged = None \<rparr>"
    if "rateLimit c \<le> rateLimitCount c"
  proof -
    from that h have "handleRateLimiting clk c = (Some (JsError ''Rate limited'' (Some 429)), c)"
      by simp
    from getCountry_rateLimited [OF miss this] show ?thesis .
  qed
qed

lemma getCountries_in_window:
  assumes "rateLimitExpiry c = Some e" and "e \<noteq> 0"
    and "\<forall>call \<in> set calls. testAt (fst call) \<le> e \<and> gateAt (fst call) \<le> e
          \<and> cache c (snd (snd call)) = None"
    and "distinct (map (\<lambda>call. snd (snd call)) calls)"
    and "rateLimitCount c \<le> rateLimit c"
    and "i < length calls"
  shows "(rateLimitCount c + int i < rateLimit c \<longrightarrow>
            fetched (getCountries c calls ! i) =
              Some (getCountryApiUrl c (snd (snd (calls ! i))), headers c)
            \<and> rateLimitCount (state (getCountries c calls ! i)) = rateLimitCount c + int i + 1)
         \<and> (rateLimit c \<le> rateLimitCount c + int i \<longrightarrow>
            envelope (getCountries c calls ! i) =
              Obj [(''error'', Obj [(''message'', Str ''Rate limited'')]),
                   (''meta'', Obj [(''apiUrl'', Str (getCountryApiUrl c (snd (snd (calls ! i))))),
                                   (''rateLimit'', Num (rateLimit c)),
                                   (''rateLimitCount'', Num (rateLimit c)),
                                   (''status'', Num 429)])]
            \<and> fetched (getCountries c calls ! i) = None
            \<and> rateLimitCount (state (getCountries c calls ! i)) = rateLimit c)"
  using assms
proof (induction calls arbitrary: c i)
  case Nil
  then show ?case by simp
next
  case (Cons call calls)
  obtain clk upstream ip where call: "call = (clk, upstream, ip)"
    by (cases call)
  let ?r = "getCountry clk upstream ip c"
  let ?c = "state ?r"
  from Cons.prems(3) call have clk: "testAt clk \<le> e" "gateAt clk \<le> e"
    and ip: "cache c ip = None"
    by simp_all
  note step = in_window_step [OF Cons.prems(1,2) clk ip, of upstream]
  note k = getCountry_keeps [of clk upstream ip c]
  show ?case
  proof (cases i)
    case 0
    show ?thesis
    proof (cases "rateLimitCount c < rateLimit c")
      case True
      with step(2) 0 call show ?thesis by (simp add: Let_def)
    next
      case False
      with Cons.prems(5) have eq: "rateLimitCount c = rateLimit c" by simp
      with step(3) 0 call show ?thesis by (simp add: Let_def)
    qed
  next
    case (Suc j)
    have count: "rateLimitCount ?c =
        (if rateLimitCount c < rateLimit c then rateLimitCount c + 1 else rateLimitCount c)"
      using step(2,3) by (cases "rateLimitCount c < rateLimit c") simp_all
    have ih: "(rateLimitCount ?c + int j < rateLimit ?c \<longrightarrow>
            fetched (getCountries ?c calls ! j) =
              Some (getCountryApiUrl ?c (snd (snd (calls ! j))), headers ?c)
            \<and> rateLimitCount (state (getCountries ?c calls ! j)) = rateLimitCount ?c + int j + 1)
         \<and> (rateLimit ?c \<le> rateLimitCount ?c + int j \<longrightarrow>
            envelope (getCountries ?c calls ! j) =
              Obj [(''error'', Obj [(''message'', Str ''Rate limited'')]),
                   (''meta'', Obj [(''apiUrl'', Str (getCountryApiUrl ?c (snd (snd (calls ! j))))),
                                   (''rateLimit'', Num (rateLimit ?c)),
                                   (''rateLimitCount'', Num (rateLimit ?c)),
                                   (''status'', Num 429)])]
            \<and> fetched (getCountries ?c calls ! j) = None
            \<and> rateLimitCount (state (getCountries ?c calls ! j)) = rateLimit ?c)"
    proof (rule Cons.IH)
      show "rateLimitExpiry ?c = Some e" by (rule step(1))
      show "e \<noteq> 0" by (rule Cons.prems(2))
      show "\<forall>call \<in> set calls. testAt (fst call) \<le> e \<and> gateAt (fst call) \<le> e
          \<and> cache ?c (snd (snd call)) = None"
      proof
        fix x assume x: "x \<in> set calls"
        with Cons.prems(4) call have "snd (snd x) \<noteq> ip" by auto
        then have "cache ?c (snd (snd x)) = cache c (snd (snd x))"
          by (rule getCountry_cache_other)
        with Cons.prems(3) x show "testAt (fst x) \<le> e \<and> gateAt (fst x) \<le> e
            \<and> cache ?c (snd (snd x)) = None" by simp
      qed
      show "distinct (map (\<lambda>call. snd (snd call)) calls)" using Cons.prems(4) by simp
      show "rateLimitCount ?c \<le> rateLimit ?c" using count Cons.prems(5) k by simp
      show "j < length calls" using Cons.prems(6) Suc by simp
    qed
    have nth: "getCountries c (call # calls) ! i = getCountries ?c calls ! j"
      "(call # calls) ! i = calls ! j"
      by (simp_all add: call Suc Let_def)
    from ih count Cons.prems(5) Suc show ?thesis
      unfolding nth by (simp add: k getCountry_url split: if_splits)
  qed
qed

lemma getCountries_metaCount:
  "i < length calls \<Longrightarrow>
   member (member (envelope (getCountries c calls ! i)) ''meta'') ''rateLimitCount'' =
     Num (rateLimitCount (state (getCountries c calls ! i)))"
proof (induction calls arbitrary: c i)
  case Nil
  then show ?case by simp
next
  case (Cons call calls)
  obtain clk upstream ip where call: "call = (clk, upstream, ip)"
    by (cases call)
  show ?case
  proof (cases i)
    case 0
    then show ?thesis by (simp add: call Let_def getCountry_metaCount)
  next
    case (Suc j)
    with Cons.prems have "j < length calls" by simp
    from Cons.IH [OF this] Suc show ?thesis by (simp add: call Let_def)
  qed
qed

lemma first_call_fresh:
  assumes "rateLimitExpiry c = None" and "cache c ip = None" and "0 < rateLimit c"
  shows "rateLimitExpiry (state (getCountry clk upstream ip c)) =
           Some (jsAdd (resetAt clk) (rateLimitTimeframe c))
    \<and> rateLimitCount (state (getCountry clk upstream ip c)) = 1
    \<and> fetched (getCountry clk upstream ip c) = Some (getCountryApiUrl c ip, headers c)"
proof -
  from assms(2) have miss: "\<not> truthy (cacheGet c ip)"
    by (simp add: cacheGet_def)
  from assms(1) have "isRateLimitExpired (testAt clk) c"
    by (simp add: isRateLimitExpired_def)
  from handleRateLimiting_expired_budget [OF this assms(3)] miss show ?thesis
    by (simp add: getCountry_counters [OF miss] getCountry_fetched)
qed

text \<open>
  Claim C3. A fresh client has rateLimit N, above 0. It is called N + 1 times, with IPs
  that differ from one another, all within the window that the first call opens: every
  reading of the clock that is compared with the expiry is at or before it. Each of
  the first N calls passes the gate and sends its request, and rateLimitCount, in the
  client and in the envelope, takes the values 1 to N. The call after them returns the
  error envelope with message Rate limited, status 429, rateLimitCount N and rateLimit N,
  and sends no request.
\<close>

theorem rate_limit_budget:
  assumes fresh: "rateLimitCount c = 0" "rateLimitExpiry c = None" "cache c = Map.empty"
    and budget: "0 < rateLimit c"
    and len: "length calls = nat (rateLimit c) + 1"
    and dist: "distinct (map (\<lambda>call. snd (snd call)) calls)"
    and clock: "0 < testAt (fst (hd calls))"
    and window: "\<forall>call \<in> set calls.
        testAt (fst call) \<le> jsAdd (resetAt (fst (hd calls))) (rateLimitTimeframe c)
        \<and> gateAt (fst call) \<le> jsAdd (resetAt (fst (hd calls))) (rateLimitTimeframe c)"
  shows
  "(\<forall>i < nat (rateLimit c).
      fetched (getCountries c calls ! i) =
        Some (getCountryApiUrl c (snd (snd (calls ! i))), headers c)
      \<and> rateLimitCount (state (getCountries c calls ! i)) = int i + 1
      \<and> member (member (envelope (getCountries c calls ! i)) ''meta'') ''rateLimitCount''
          = Num (int i + 1))
   \<and> envelope (getCountries c calls ! nat (rateLimit c)) =
       Obj [(''error'', Obj [(''message'', Str ''Rate limited'')]),
            (''meta'', Obj [(''apiUrl'',
                               Str (getCountryApiUrl c (snd (snd (calls ! nat (rateLimit c)))))),
                            (''rateLimit'', Num (rateLimit c)),
                            (''rateLimitCount'', Num (rateLimit c)),
                            (''status'', Num 429)])]
   \<and> fetched (getCountries c calls ! nat (rateLimit c)) = None"
proof -
  from len obtain call rest where calls: "calls = call # rest"
    by (cases calls) simp_all
  obtain clk upstream ip where call: "call = (clk, upstream, ip)"
    by (cases call)
  let ?r = "getCountry clk upstream ip c"
  let ?c = "state ?r"
  let ?e = "jsAdd (resetAt clk) (rateLimitTimeframe c)"
  from fresh(3) have "cache c ip = None" by simp
  note first = first_call_fresh [OF fresh(2) this budget, of clk upstream]
  note k = getCountry_keeps [of clk upstream ip c]
  from window clock calls call have e: "?e \<noteq> 0" by auto
  have e1: "rateLimitExpiry ?c = Some ?e" using first by simp
  have inw: "\<forall>x \<in> set rest. testAt (fst x) \<le> ?e \<and> gateAt (fst x) \<le> ?e
      \<and> cache ?c (snd (snd x)) = None"
  proof
    fix x assume x: "x \<in> set rest"
    with dist calls call have "snd (snd x) \<noteq> ip" by auto
    then have "cache ?c (snd (snd x)) = cache c (snd (snd x))"
      by (rule getCountry_cache_other)
    with window x calls call fresh(3) show "testAt (fst x) \<le> ?e \<and> gateAt (fst x) \<le> ?e
        \<and> cache ?c (snd (snd x)) = None"
      by simp
  qed
  have d: "distinct (map (\<lambda>call. snd (snd call)) rest)" using dist calls by simp
  have b: "rateLimitCount ?c \<le> rateLimit ?c" using first budget k by simp
  note run = getCountries_in_window [OF e1 e inw d b]
  have lenr: "length rest = nat (rateLimit c)" using len calls by simp
  have nth: "getCountries c calls ! Suc j = getCountries ?c rest ! j"
    "calls ! Suc j = rest ! j" for j
    by (simp_all add: calls call Let_def)
  have admitted: "fetched (getCountries c calls ! i) =
        Some (getCountryApiUrl c (snd (snd (calls ! i))), headers c)
      \<and> rateLimitCount (state (getCountries c calls ! i)) = int i + 1
      \<and> member (member (envelope (getCountries c calls ! i)) ''meta'') ''rateLimitCount''
          = Num (int i + 1)" if i: "i < nat (rateLimit c)" for i
  proof -
    from i len have il: "i < length calls" by simp
    have "fetched (getCountries c calls ! i) =
        Some (getCountryApiUrl c (snd (snd (calls ! i))), headers c)
      \<and> rateLimitCount (state (getCountries c calls ! i)) = int i + 1"
    proof (cases i)
      case 0
      with first show ?thesis by (simp add: calls call Let_def)
    next
      case (Suc j)
      with i lenr have j: "j < length rest" by simp
      from i Suc first k have "rateLimitCount ?c + int j < rateLimit ?c" by simp
      with run [OF j] first k show ?thesis
        unfolding Suc nth by (simp add: getCountry_url)
    qed
    then show ?thesis
      by (simp add: getCountries_metaCount [OF il])
  qed
  have rejected: "envelope (getCountries c calls ! nat (rateLimit c)) =
       Obj [(''error'', Obj [(''message'', Str ''Rate limited'')]),
            (''meta'', Obj [(''apiUrl'',
                               Str (getCountryApiUrl c (snd (snd (calls ! nat (rateLimit c)))))),
                            (''rateLimit'', Num (rateLimit c)),
                            (''rateLimitCount'', Num (rateLimit c)),
                            (''status'', Num 429)])]
   \<and> fetched (getCountries c calls ! nat (rateLimit c)) = None"
  proof -
    from budget obtain j where n: "nat (rateLimit c) = Suc j"
      by (cases "nat (rateLimit c)") simp_all
    with lenr have j: "j < length rest" by simp
    from n budget have "int j = rateLimit c - 1" by linarith
    with first k have "rateLimit ?c \<le> rateLimitCount ?c + int j" by simp
    with run [OF j] k show ?thesis
      unfolding n nth by (simp add: getCountry_url)
  qed
  from admitted rejected show ?thesis by blast
qed

theorem rate_limit_budget_witness:
  "rateLimitCount (state (getCountries ipstackClient sixCalls ! 0)) = 1
   \<and> rateLimitCount (state (getCountries ipstackClient sixCalls ! 4)) = 5
   \<and> fetched (getCountries ipstackClient sixCalls ! 4) =
       Some (''http://api.ipstack.com/5.5.5.5?access_key=abc123'', Undefined)
   \<and> envelope (getCountries ipstackClient sixCalls ! 5) =
       Obj [(''error'', Obj [(''message'', Str ''Rate limited'')]),
            (''meta'', Obj [(''apiUrl'', Str ''http://api.ipstack.com/111.22.333.44?access_key=abc123''),
                            (''rateLimit'', Num 5),
                            (''rateLimitCount'', Num 5),
                            (''status'', Num 429)])]
   \<and> fetched (getCountries ipstackClient sixCalls ! 5) = None"
proof -
  have fresh: "rateLimitCount ipstackClient = 0" "rateLimitExpiry ipstackClient = None"
    "cache ipstackClient = Map.empty"
    by (simp_all add: fixture_defs)
  have n: "rateLimit ipstackClient = 5" by (simp add: fixture_defs)
  have budget: "0 < rateLimit ipstackClient" by (simp add: n)
  have len: "length sixCalls = nat (rateLimit ipstackClient) + 1"
    by (simp add: n sixCalls_def)
  have dist: "distinct (map (\<lambda>call. snd (snd call)) sixCalls)"
    by (simp add: sixCalls_def)
  have clock: "0 < testAt (fst (hd sixCalls))" by (simp add: sixCalls_def steady_def)
  have e: "jsAdd (resetAt (fst (hd sixCalls))) (rateLimitTimeframe ipstackClient) = 61000"
    by (simp add: sixCalls_def steady_def fixture_defs jsAdd_exact)
  have window: "\<forall>call \<in> set sixCalls.
      testAt (fst call) \<le> jsAdd (resetAt (fst (hd sixCalls))) (rateLimitTimeframe ipstackClient)
      \<and> gateAt (fst call) \<le> jsAdd (resetAt (fst (hd sixCalls))) (rateLimitTimeframe ipstackClient)"
    unfolding e by (simp add: sixCalls_def steady_def)
  have u: "getCountryApiUrl ipstackClient (snd (snd (sixCalls ! 4))) =
             ''http://api.ipstack.com/5.5.5.5?access_key=abc123''"
    "getCountryApiUrl ipstackClient (snd (snd (sixCalls ! 5))) =
             ''http://api.ipstack.com/111.22.333.44?access_key=abc123''"
    "headers ipstackClient = Undefined"
    by (simp_all add: sixCalls_def getCountryApiUrl_def fixture_defs)
  note t = rate_limit_budget [OF fresh budget len dist clock window]
  from t have "\<forall>i < 5. rateLimitCount (state (getCountries ipstackClient sixCalls ! i)) = int i + 1
      \<and> fetched (getCountries ipstackClient sixCalls ! i) =
        Some (getCountryApiUrl ipstackClient (snd (snd (sixCalls ! i))), headers ipstackClient)"
    by (simp add: n)
  then have a: "rateLimitCount (state (getCountries ipstackClient sixCalls ! 0)) = 1"
    "rateLimitCount (state (getCountries ipstackClient sixCalls ! 4)) = 5"
    "fetched (getCountries ipstackClient sixCalls ! 4) =
        Some (getCountryApiUrl ipstackClient (snd (snd (sixCalls ! 4))), headers ipstackClient)"
    by auto
  from t have b: "envelope (getCountries ipstackClient sixCalls ! 5) =
       Obj [(''error'', Obj [(''message'', Str ''Rate limited'')]),
            (''meta'', Obj [(''apiUrl'', Str (getCountryApiUrl ipstackClient
                                               (snd (snd (sixCalls ! 5))))),
                            (''rateLimit'', Num 5),
                            (''rateLimitCount'', Num 5),
                            (''status'', Num 429)])]
   \<and> fetched (getCountries ipstackClient sixCalls ! 5) = None"
    by (simp add: n)
  from a b show ?thesis by (simp add: u)
qed

end
